theory Spec2Isabelle
  imports Complex_Main
begin

section \<open>Data model (types.ts)\<close>

text \<open>
  The service \<^verbatim>\<open>services/legionApiService.ts\<close> keeps four collections in memory
  (agents, channels, messages per channel, credentials) and one round-robin cursor.
  Interfaces become records, string unions become datatypes, optional fields become
  options. A JavaScript \<^verbatim>\<open>number\<close> that arrives through JSON is a finite double, hence a
  rational: it is modelled as \<open>rat\<close>, on which the comparator \<^verbatim>\<open>a - b\<close> of the source
  orders as \<open>\<le>\<close> does. \<^verbatim>\<open>Date.now()\<close> is a \<open>nat\<close>. A \<^verbatim>\<open>Record<string, number>\<close> is a
  map from strings; property names that JavaScript objects treat specially are outside
  the model. Field names carry the name of their interface where two interfaces share
  a field name (\<^verbatim>\<open>id\<close>, \<^verbatim>\<open>name\<close>, \<^verbatim>\<open>key\<close>, \<^verbatim>\<open>type\<close>).
\<close>

record ApiKey =
  apiKey_id :: string
  apiKey_name :: string
  apiKey_key :: string

datatype KeyMethod = Assigned | Load_Balanced | No_Key

record SelectedKeyInfo =
  sel_key :: string
  sel_name :: string
  sel_method :: KeyMethod

datatype Action = SPEAK | STAY_SILENT

record OpinionUpdate =
  participantName :: string
  newScore :: rat
  reasonForChange :: string

text \<open>
  \<^verbatim>\<open>PerceptionPlan extends MinionDiaryState\<close>: the first five fields are the diary's.
  The only diary the service ever stores is a plan (\<^verbatim>\<open>updateMinionState\<close>), so the
  agent's diary field holds an optional plan.
\<close>

record PerceptionPlan =
  perceptionAnalysis :: string
  opinionUpdates :: "OpinionUpdate list"
  finalOpinions :: "string \<rightharpoonup> rat"
  selectedResponseMode :: string
  personalNotes :: "string option"
  action :: Action
  responsePlan :: string
  predictedResponseTime :: rat

record MinionConfig =
  minion_id :: string
  minion_name :: string
  model_id :: string
  model_name :: "string option"
  system_prompt_persona :: string
  temperature :: rat
  apiKeyId :: "string option"
  opinionScores :: "string \<rightharpoonup> rat"
  lastDiaryState :: "PerceptionPlan option"
  status :: "string option"
  currentTask :: "string option"

datatype MessageSender = User | AI | System

record ChatMessageData =
  msg_id :: string
  channelId :: string
  senderType :: MessageSender
  senderName :: string
  content :: string
  timestamp :: nat
  internalDiary :: "PerceptionPlan option"
  isError :: "bool option"
  replyToMessageId :: "string option"
  isProcessing :: "bool option"
  isApiKeyLog :: "bool option"

datatype ChannelType = user_minion_group | minion_minion_auto | system_log

datatype DelayType = fixed | random

record Channel =
  channel_id :: string
  channel_name :: string
  description :: "string option"
  channel_type :: ChannelType
  members :: "string list"
  isPrivate :: "bool option"
  isAutoModeActive :: "bool option"
  autoModeDelayType :: "DelayType option"
  autoModeFixedDelay :: "rat option"
  autoModeRandomDelay :: "(rat \<times> rat) option"

text \<open>
  \<^verbatim>\<open>ChannelPayload & {id: string}\<close>, the argument of \<^verbatim>\<open>updateChannel\<close>: an optional
  field that is absent is \<open>None\<close>.
\<close>

record ChannelPayload =
  payload_id :: string
  payload_name :: string
  payload_description :: "string option"
  payload_type :: ChannelType
  payload_members :: "string list"
  payload_isPrivate :: "bool option"
  payload_isAutoModeActive :: "bool option"
  payload_autoModeDelayType :: "DelayType option"
  payload_autoModeFixedDelay :: "rat option"
  payload_autoModeRandomDelay :: "(rat \<times> rat) option"

text \<open>The private fields of \<^verbatim>\<open>class LegionApiService\<close>.\<close>

record LegionApiService =
  minionConfigs :: "MinionConfig list"
  channels :: "Channel list"
  messages :: "string \<rightharpoonup> ChatMessageData list"
  apiKeys :: "ApiKey list"
  apiKeyRoundRobinIndex :: nat

text \<open>
  What the source throws: \<^verbatim>\<open>new Error(message)\<close>; the \<^verbatim>\<open>TypeError\<close> of reading a
  property of \<^verbatim>\<open>undefined\<close>; the \<^verbatim>\<open>QuotaExceededError\<close> of \<^verbatim>\<open>localStorage.setItem\<close>.
\<close>

datatype error = Error string | TypeError string | QuotaExceededError

definition LEGION_COMMANDER_NAME :: string where
  "LEGION_COMMANDER_NAME = ''Steven''"

section \<open>Strings and arrays of the host language\<close>

definition digit_char :: "nat \<Rightarrow> char" where
  "digit_char d = ''0123456789'' ! d"

fun show_nat :: "nat \<Rightarrow> string" where
  "show_nat n = (if n < 10 then [digit_char n] else show_nat (n div 10) @ [digit_char (n mod 10)])"

declare show_nat.simps [simp del]

text \<open>
  A \<open>string\<close> is a list of 8-bit characters: it stands for a source string whose code
  units are all below 256. The white space and line terminators of ECMAScript in that
  range are TAB, LF, VT, FF, CR, SP and NBSP (U+00A0); the others (U+FEFF, U+1680,
  U+2000 to U+200A, U+2028, U+2029, U+202F, U+205F, U+3000) are not characters of this
  type.
\<close>

definition isWhiteSpace :: "char \<Rightarrow> bool" where
  "isWhiteSpace c = (c = CHR '' '' \<or> c = CHR 0x09 \<or> c = CHR 0x0A \<or> c = CHR 0x0B \<or> c = CHR 0x0C \<or> c = CHR 0x0D
     \<or> c = CHR 0xA0)"

text \<open>\<^verbatim>\<open>String.prototype.trim\<close>: white space and line terminators are stripped at both ends.\<close>

definition trim :: "string \<Rightarrow> string" where
  "trim s = rev (dropWhile isWhiteSpace (rev (dropWhile isWhiteSpace s)))"

text \<open>\<^verbatim>\<open>Array.prototype.findIndex\<close>: \<open>None\<close> is the source's \<open>-1\<close>.\<close>

fun findIndex :: "('a \<Rightarrow> bool) \<Rightarrow> 'a list \<Rightarrow> nat option" where
  "findIndex P [] = None"
| "findIndex P (x # xs) = (if P x then Some 0 else map_option Suc (findIndex P xs))"

section \<open>Credential pool\<close>

definition addApiKey :: "nat \<Rightarrow> string \<Rightarrow> string \<Rightarrow> LegionApiService \<Rightarrow> error + LegionApiService" where
  "addApiKey now name key s =
     (if trim name = [] \<or> trim key = [] then Inl (Error ''API Key and Name cannot be empty.'')
      else Inr (s\<lparr>apiKeys := apiKeys s @
        [\<lparr>apiKey_id = ''key-'' @ show_nat now, apiKey_name = name, apiKey_key = key\<rparr>]\<rparr>))"

definition deleteApiKey :: "string \<Rightarrow> LegionApiService \<Rightarrow> LegionApiService" where
  "deleteApiKey kid s =
     s\<lparr>minionConfigs := map (\<lambda>minion. if apiKeyId minion = Some kid then minion\<lparr>apiKeyId := None\<rparr> else minion)
          (minionConfigs s),
       apiKeys := filter (\<lambda>k. apiKey_id k \<noteq> kid) (apiKeys s)\<rparr>"

text \<open>
  The test \<^verbatim>\<open>minion?.apiKeyId\<close> of \<^verbatim>\<open>_selectApiKey\<close>: an agent was passed, and its
  pinned id is a non-empty string (the empty string is falsy).
\<close>

definition pinnedKeyId :: "MinionConfig option \<Rightarrow> string option" where
  "pinnedKeyId minion =
     (case minion of None \<Rightarrow> None
      | Some m \<Rightarrow> (case apiKeyId m of None \<Rightarrow> None | Some kid \<Rightarrow> if kid = [] then None else Some kid))"

text \<open>
  \<^verbatim>\<open>_selectApiKey\<close>. The read \<^verbatim>\<open>this.apiKeys[this.apiKeyRoundRobinIndex]\<close> past the end
  of the array is \<^verbatim>\<open>undefined\<close> (\<open>None\<close> below). The cursor is assigned next, and only
  then does \<^verbatim>\<open>keyInfo.key\<close> throw: the thrown outcome (\<open>Inl\<close>) carries the service as
  the throw leaves it, with the cursor advanced.
\<close>

definition selectApiKey ::
  "LegionApiService \<Rightarrow> MinionConfig option \<Rightarrow> (error \<times> LegionApiService) + (SelectedKeyInfo \<times> LegionApiService)" where
  "selectApiKey s minion =
     (case (case pinnedKeyId minion of None \<Rightarrow> None
            | Some kid \<Rightarrow> find (\<lambda>k. apiKey_id k = kid) (apiKeys s)) of
        Some specificKey \<Rightarrow>
          Inr (\<lparr>sel_key = apiKey_key specificKey, sel_name = apiKey_name specificKey, sel_method = Assigned\<rparr>, s)
      | None \<Rightarrow>
          if length (apiKeys s) > 0 then
            (let keyInfo = (if apiKeyRoundRobinIndex s < length (apiKeys s)
                            then Some (apiKeys s ! apiKeyRoundRobinIndex s) else None);
                 s' = s\<lparr>apiKeyRoundRobinIndex := (apiKeyRoundRobinIndex s + 1) mod length (apiKeys s)\<rparr>
             in case keyInfo of
                  None \<Rightarrow> Inl (TypeError ''Cannot read properties of undefined (reading 'key')'', s')
                | Some k \<Rightarrow> Inr (\<lparr>sel_key = apiKey_key k, sel_name = apiKey_name k, sel_method = Load_Balanced\<rparr>, s'))
          else Inr (\<lparr>sel_key = '''', sel_name = ''N/A'', sel_method = No_Key\<rparr>, s))"

text \<open>
  \<open>n\<close> consecutive selections for the same caller on the same service object: the
  outcome of each call, in call order, and the service after the last. A call that
  throws returns no credential; the next call runs on the service the throw left.
\<close>

fun selectMany ::
  "nat \<Rightarrow> LegionApiService \<Rightarrow> MinionConfig option \<Rightarrow> (error + SelectedKeyInfo) list \<times> LegionApiService" where
  "selectMany 0 s minion = ([], s)"
| "selectMany (Suc n) s minion =
     (case selectApiKey s minion of
        Inl (e, s') \<Rightarrow> (let (outcomes, s'') = selectMany n s' minion in (Inl e # outcomes, s''))
      | Inr (info, s') \<Rightarrow> (let (outcomes, s'') = selectMany n s' minion in (Inr info # outcomes, s'')))"

section \<open>Agent, channel and message management\<close>

text \<open>
  The management methods are \<^verbatim>\<open>async\<close>: a call yields a promise, rejected with the
  thrown error (\<open>Inl\<close>) or resolved with the method's value and the service as the
  method left it (\<open>Inr\<close>). \<^verbatim>\<open>saveState\<close> only reads the four collections and writes
  them to \<^verbatim>\<open>localStorage\<close>, catching every failure of the write (\<^verbatim>\<open>setStoredData\<close>);
  it leaves the service as it is and does not appear in the model of the service.
\<close>

text \<open>
  The assignment \<^verbatim>\<open>obj[name] = v\<close> on a plain object (a \<^verbatim>\<open>Record<string, number>\<close> built
  by an object literal or by \<^verbatim>\<open>JSON.parse\<close>). Every name but one gets an own property.
  The name \<^verbatim>\<open>__proto__\<close> is an accessor of \<^verbatim>\<open>Object.prototype\<close>: unless the object already
  has an own property of that name (\<^verbatim>\<open>JSON.parse\<close> creates one), the assignment runs the
  inherited setter, which ignores a number, and the object gets no entry.
\<close>

definition assignProperty :: "(string \<rightharpoonup> rat) \<Rightarrow> string \<Rightarrow> rat \<Rightarrow> (string \<rightharpoonup> rat)" where
  "assignProperty obj name v = (if name = ''__proto__'' \<and> obj name = None then obj else obj(name \<mapsto> v))"

text \<open>
  \<^verbatim>\<open>addMinion\<close>. The object literal \<^verbatim>\<open>{ [LEGION_COMMANDER_NAME]: 50 }\<close> defines its property;
  the two \<^verbatim>\<open>forEach\<close> loops assign.
\<close>

definition addMinion :: "nat \<Rightarrow> MinionConfig \<Rightarrow> LegionApiService \<Rightarrow> error + (MinionConfig \<times> LegionApiService)" where
  "addMinion now config s =
     (let newMinionName = minion_name config;
          existing = map (\<lambda>existingMinion.
              existingMinion\<lparr>opinionScores := assignProperty (opinionScores existingMinion) newMinionName 50\<rparr>)
            (minionConfigs s);
          initialScoresForNewMinion =
            fold (\<lambda>existingMinion scores. assignProperty scores (minion_name existingMinion) 50) existing
              [LEGION_COMMANDER_NAME \<mapsto> 50];
          newMinion = config\<lparr>
            minion_id := (if minion_id config = [] then ''minion-'' @ show_nat now else minion_id config),
            opinionScores := initialScoresForNewMinion,
            status := Some ''Idle'',
            lastDiaryState := None\<rparr>
      in Inr (newMinion, s\<lparr>minionConfigs := existing @ [newMinion]\<rparr>))"

definition updateMinion :: "MinionConfig \<Rightarrow> LegionApiService \<Rightarrow> error + (MinionConfig \<times> LegionApiService)" where
  "updateMinion updatedConfig s =
     (case findIndex (\<lambda>m. minion_id m = minion_id updatedConfig) (minionConfigs s) of
        None \<Rightarrow> Inl (Error ''Minion not found for update.'')
      | Some index \<Rightarrow>
          Inr (updatedConfig, s\<lparr>minionConfigs := (minionConfigs s)[index := updatedConfig]\<rparr>))"

definition deleteMinion :: "string \<Rightarrow> LegionApiService \<Rightarrow> error + LegionApiService" where
  "deleteMinion mid s =
     (case find (\<lambda>m. minion_id m = mid) (minionConfigs s) of
        None \<Rightarrow> Inr s
      | Some minionToDelete \<Rightarrow>
          Inr (s\<lparr>minionConfigs :=
                  map (\<lambda>m. m\<lparr>opinionScores := (opinionScores m)(minion_name minionToDelete := None)\<rparr>)
                    (filter (\<lambda>m. minion_id m \<noteq> mid) (minionConfigs s)),
                channels :=
                  map (\<lambda>c. c\<lparr>members := filter (\<lambda>name. name \<noteq> minion_name minionToDelete) (members c)\<rparr>)
                    (channels s)\<rparr>))"

text \<open>
  \<^verbatim>\<open>{...existingChannel, ...updatedChannelData}\<close>: a field the payload carries replaces
  the channel's, a field it lacks leaves the channel's.
\<close>

definition orElse :: "'a option \<Rightarrow> 'a option \<Rightarrow> 'a option" where
  "orElse new old = (case new of None \<Rightarrow> old | Some v \<Rightarrow> Some v)"

definition mergeChannel :: "Channel \<Rightarrow> ChannelPayload \<Rightarrow> Channel" where
  "mergeChannel existingChannel p =
     \<lparr>channel_id = payload_id p,
      channel_name = payload_name p,
      description = orElse (payload_description p) (description existingChannel),
      channel_type = payload_type p,
      members = payload_members p,
      isPrivate = orElse (payload_isPrivate p) (isPrivate existingChannel),
      isAutoModeActive = orElse (payload_isAutoModeActive p) (isAutoModeActive existingChannel),
      autoModeDelayType = orElse (payload_autoModeDelayType p) (autoModeDelayType existingChannel),
      autoModeFixedDelay = orElse (payload_autoModeFixedDelay p) (autoModeFixedDelay existingChannel),
      autoModeRandomDelay = orElse (payload_autoModeRandomDelay p) (autoModeRandomDelay existingChannel)\<rparr>"

definition updateChannel :: "ChannelPayload \<Rightarrow> LegionApiService \<Rightarrow> error + (Channel \<times> LegionApiService)" where
  "updateChannel updatedChannelData s =
     (case findIndex (\<lambda>c. channel_id c = payload_id updatedChannelData) (channels s) of
        None \<Rightarrow> Inl (Error ''Channel not found for update.'')
      | Some index \<Rightarrow>
          (let merged = mergeChannel (channels s ! index) updatedChannelData
           in Inr (merged, s\<lparr>channels := (channels s)[index := merged]\<rparr>)))"

text \<open>\<^verbatim>\<open>this.messages[channelId] || []\<close>.\<close>

definition messagesOf :: "LegionApiService \<Rightarrow> string \<Rightarrow> ChatMessageData list" where
  "messagesOf s cid = (case messages s cid of None \<Rightarrow> [] | Some ms \<Rightarrow> ms)"

definition deleteMessage :: "string \<Rightarrow> string \<Rightarrow> LegionApiService \<Rightarrow> error + LegionApiService" where
  "deleteMessage cid messageId s =
     Inr (s\<lparr>messages := (messages s)(cid \<mapsto> filter (\<lambda>m. msg_id m \<noteq> messageId) (messagesOf s cid))\<rparr>)"

definition editMessage :: "string \<Rightarrow> string \<Rightarrow> string \<Rightarrow> LegionApiService \<Rightarrow> error + LegionApiService" where
  "editMessage cid messageId newContent s =
     Inr (s\<lparr>messages := (messages s)(cid \<mapsto>
        map (\<lambda>m. if msg_id m = messageId then m\<lparr>content := newContent\<rparr> else m) (messagesOf s cid))\<rparr>)"

section \<open>Persistence (getStoredData)\<close>

text \<open>
  \<^verbatim>\<open>localStorage\<close> is a map from keys to strings. \<^verbatim>\<open>setItem\<close> throws when the store
  refuses the write (the quota; \<^verbatim>\<open>setStoredData\<close> of the source catches exactly this):
  \<open>fits\<close> says which contents the store accepts. \<^verbatim>\<open>JSON.parse\<close> is the parameter
  \<open>parse\<close>, \<open>None\<close> where it throws; the parsed value is taken at the type \<^verbatim>\<open>T\<close> the caller
  asks for, as the source does.
\<close>

type_synonym localStorage = "string \<rightharpoonup> string"

definition setItem :: "(localStorage \<Rightarrow> bool) \<Rightarrow> localStorage \<Rightarrow> string \<Rightarrow> string \<Rightarrow> error + localStorage" where
  "setItem fits store k v = (if fits (store(k \<mapsto> v)) then Inr (store(k \<mapsto> v)) else Inl QuotaExceededError)"

definition removeItem :: "localStorage \<Rightarrow> string \<Rightarrow> localStorage" where
  "removeItem store k = store(k := None)"

definition corruptedKey :: "string \<Rightarrow> nat \<Rightarrow> string" where
  "corruptedKey k now = k @ ''_corrupted_'' @ show_nat now"

definition getStoredData ::
  "(string \<Rightarrow> 'a option) \<Rightarrow> (localStorage \<Rightarrow> bool) \<Rightarrow> nat \<Rightarrow> localStorage \<Rightarrow> string \<Rightarrow> 'a \<Rightarrow> error + ('a \<times> localStorage)" where
  "getStoredData parse fits now store k defaultValue =
     (case store k of
        None \<Rightarrow> Inr (defaultValue, store)
      | Some saved \<Rightarrow>
          if saved = ''undefined'' then Inr (defaultValue, store)
          else (case parse saved of
                  Some v \<Rightarrow> Inr (v, store)
                | None \<Rightarrow>
                    (case setItem fits store (corruptedKey k now) saved of
                       Inl e \<Rightarrow> Inl e
                     | Inr store' \<Rightarrow> Inr (defaultValue, removeItem store' k))))"

section \<open>The environment of a batch\<close>

text \<open>
  A batch (\<^verbatim>\<open>handleUserMessage\<close>, \<^verbatim>\<open>triggerNextAutoChatTurn\<close>) reads the clock, calls
  the model client and reports through four observer callbacks. The environment
  supplies what the service cannot compute: the \<open>n\<close>-th reading of \<^verbatim>\<open>Date.now()\<close>, the
  remote reply to the \<open>n\<close>-th structured call and to the \<open>n\<close>-th streamed call, and the
  parser of a reply's text (\<^verbatim>\<open>parseJsonFromMarkdown<PerceptionPlan>\<close>, \<open>None\<close> for
  \<^verbatim>\<open>null\<close>). The source does not check the shape of what \<^verbatim>\<open>JSON.parse\<close> returns: a reply
  that parses is taken to be a value of the declared type \<^verbatim>\<open>PerceptionPlan\<close>. A thrown
  error is given by the message text that \<^verbatim>\<open>geminiService.ts\<close> derives from it. A run carries the service, the trace of every call that leaves the
  service (callbacks and model calls, in order) and how much of each oracle is used.
  A batch is modelled without other service methods running between its steps. A batch
  that rejects is \<open>Inl\<close> of the thrown error and the run as the throw leaves it; the only
  throw inside a batch is that of \<^verbatim>\<open>_selectApiKey\<close>.
\<close>

datatype GenerateContentResult = GenerateThrows string | GenerateResponse string "string option"

datatype StreamResult = StreamCompletes "string list" | StreamThrows "string list" string

record Env =
  clock :: "nat \<Rightarrow> nat"
  generateContent :: "nat \<Rightarrow> GenerateContentResult"
  generateContentStream :: "nat \<Rightarrow> StreamResult"
  parseJsonFromMarkdown :: "string \<Rightarrow> PerceptionPlan option"

text \<open>
  The arguments of the two prompt templates of \<^verbatim>\<open>constants.ts\<close>, before rendering
  (\<^verbatim>\<open>JSON.stringify\<close> of the diary and of the opinion map is not modelled).
\<close>

record PerceptionPrompt =
  pp_minionName :: string
  pp_personaPrompt :: string
  pp_previousDiary :: "PerceptionPlan option"
  pp_currentOpinionScores :: "string \<rightharpoonup> rat"
  pp_channelHistoryString :: string
  pp_lastMessageSenderName :: string
  pp_channelType :: ChannelType

record ResponsePrompt =
  rp_minionName :: string
  rp_personaPrompt :: string
  rp_channelHistoryString :: string
  rp_plan :: PerceptionPlan

datatype Event =
    OnMinionResponse ChatMessageData
  | OnMinionResponseChunk string string string
  | OnMinionProcessingUpdate string bool
  | OnSystemMessage ChatMessageData
  | CallGeminiApiForJson PerceptionPrompt string rat string
  | CallGeminiAPIStream ResponsePrompt string rat string

record Run =
  service :: LegionApiService
  events :: "Event list"
  clockReads :: nat
  jsonCalls :: nat
  streamCalls :: nat

definition Date_now :: "Env \<Rightarrow> Run \<Rightarrow> nat \<times> Run" where
  "Date_now env run = (clock env (clockReads run), run\<lparr>clockReads := Suc (clockReads run)\<rparr>)"

definition emit :: "Event \<Rightarrow> Run \<Rightarrow> Run" where
  "emit e run = run\<lparr>events := events run @ [e]\<rparr>"

text \<open>\<^verbatim>\<open>Array.prototype.map\<close> with a callback that may throw and that changes the run.\<close>

fun mapRun ::
  "('a \<Rightarrow> Run \<Rightarrow> (error \<times> Run) + ('b \<times> Run)) \<Rightarrow> 'a list \<Rightarrow> Run \<Rightarrow> (error \<times> Run) + ('b list \<times> Run)" where
  "mapRun f [] run = Inr ([], run)"
| "mapRun f (x # xs) run =
     (case f x run of
        Inl e \<Rightarrow> Inl e
      | Inr (y, run') \<Rightarrow>
          (case mapRun f xs run' of
             Inl e \<Rightarrow> Inl e
           | Inr (ys, run'') \<Rightarrow> Inr (y # ys, run'')))"

subsection \<open>constants.ts: the chat history given to the model\<close>

definition senderPrefix :: "ChatMessageData \<Rightarrow> string" where
  "senderPrefix msg =
     (case senderType msg of
        User \<Rightarrow> ''[COMMANDER '' @ senderName msg @ '']''
      | AI \<Rightarrow> ''[MINION '' @ senderName msg @ '']''
      | System \<Rightarrow> ''['' @ senderName msg @ '']'')"

text \<open>\<^verbatim>\<open>slice(-n)\<close> and \<^verbatim>\<open>join\<close>.\<close>

definition lastN :: "nat \<Rightarrow> 'a list \<Rightarrow> 'a list" where
  "lastN n xs = drop (length xs - n) xs"

fun join :: "string \<Rightarrow> string list \<Rightarrow> string" where
  "join sep [] = []"
| "join sep [x] = x"
| "join sep (x # y # ys) = x @ sep @ join sep (y # ys)"

definition formatChatHistoryForLLM :: "ChatMessageData list \<Rightarrow> string \<Rightarrow> string" where
  "formatChatHistoryForLLM msgs currentChannelId =
     (let historyLines = map (\<lambda>msg. senderPrefix msg @ '': '' @ content msg)
            (lastN 15 (filter (\<lambda>msg. channelId msg = currentChannelId) msgs))
      in if historyLines = []
         then ''This is the beginning of the conversation in channel '' @ currentChannelId @ ''.''
         else join [CHR 0x0A] historyLines)"

subsection \<open>geminiService.ts\<close>

definition emptyResponseReason :: "string option \<Rightarrow> string" where
  "emptyResponseReason finishReason =
     (case finishReason of
        None \<Rightarrow> ''Model returned an empty response''
      | Some r \<Rightarrow> if r \<noteq> [] \<and> r \<noteq> ''STOP'' then ''Response finished with reason: '' @ r @ ''.''
                  else ''Model returned an empty response'')"

definition callGeminiApiForJson ::
  "Env \<Rightarrow> PerceptionPrompt \<Rightarrow> string \<Rightarrow> rat \<Rightarrow> string \<Rightarrow> Run \<Rightarrow> (PerceptionPlan option \<times> string option) \<times> Run" where
  "callGeminiApiForJson env prompt model temp apiKey run =
     (let run1 = emit (CallGeminiApiForJson prompt model temp apiKey) run
      in if apiKey = [] then ((None, Some ''API Key not provided for JSON API call.''), run1)
         else (let reply = generateContent env (jsonCalls run1);
                   run2 = run1\<lparr>jsonCalls := Suc (jsonCalls run1)\<rparr>
               in case reply of
                    GenerateThrows errorMessage \<Rightarrow> ((None, Some (''Gemini API Error: '' @ errorMessage)), run2)
                  | GenerateResponse text finishReason \<Rightarrow>
                      if text = [] then ((None, Some (emptyResponseReason finishReason)), run2)
                      else (case parseJsonFromMarkdown env text of
                              None \<Rightarrow> ((None, Some ''Failed to parse valid plan from model response.''), run2)
                            | Some plan \<Rightarrow> ((Some plan, None), run2))))"

text \<open>
  The callbacks \<^verbatim>\<open>callGeminiAPIStream\<close> invokes, in order: \<^verbatim>\<open>onStreamChunk(text, isFinal)\<close>
  and \<^verbatim>\<open>onError(message)\<close>. Every stream ends with one final chunk or one error.
\<close>

datatype StreamCallback = OnStreamChunk string bool | OnError string

definition callGeminiAPIStream ::
  "Env \<Rightarrow> ResponsePrompt \<Rightarrow> string \<Rightarrow> rat \<Rightarrow> string \<Rightarrow> Run \<Rightarrow> StreamCallback list \<times> Run" where
  "callGeminiAPIStream env prompt model temp apiKey run =
     (let run1 = emit (CallGeminiAPIStream prompt model temp apiKey) run
      in if apiKey = [] then ([OnError ''API Key not provided for streaming.''], run1)
         else (let reply = generateContentStream env (streamCalls run1);
                   run2 = run1\<lparr>streamCalls := Suc (streamCalls run1)\<rparr>
               in case reply of
                    StreamCompletes chunks \<Rightarrow>
                      (map (\<lambda>chunkText. OnStreamChunk chunkText False) chunks @ [OnStreamChunk [] True], run2)
                  | StreamThrows chunks errorMessage \<Rightarrow>
                      (map (\<lambda>chunkText. OnStreamChunk chunkText False) chunks @
                       [OnError (''Gemini API Stream Error: '' @ errorMessage)], run2)))"

section \<open>The turn-orchestration engine\<close>

definition systemMessage :: "string \<Rightarrow> string \<Rightarrow> string \<Rightarrow> nat \<Rightarrow> ChatMessageData" where
  "systemMessage mid cid text now =
     \<lparr>msg_id = mid, channelId = cid, senderType = System, senderName = ''System'', content = text,
      timestamp = now, internalDiary = None, isError = None, replyToMessageId = None,
      isProcessing = None, isApiKeyLog = None\<rparr>"

definition aiMessage :: "string \<Rightarrow> string \<Rightarrow> string \<Rightarrow> string \<Rightarrow> nat \<Rightarrow> ChatMessageData" where
  "aiMessage mid cid sender text now =
     \<lparr>msg_id = mid, channelId = cid, senderType = AI, senderName = sender, content = text,
      timestamp = now, internalDiary = None, isError = None, replyToMessageId = None,
      isProcessing = None, isApiKeyLog = None\<rparr>"

datatype Stage = Perception | Response

definition stageName :: "Stage \<Rightarrow> string" where
  "stageName stage = (case stage of Perception \<Rightarrow> ''Perception'' | Response \<Rightarrow> ''Response'')"

definition methodName :: "KeyMethod \<Rightarrow> string" where
  "methodName how = (case how of Assigned \<Rightarrow> ''Assigned'' | Load_Balanced \<Rightarrow> ''Load Balanced'' | No_Key \<Rightarrow> ''None'')"

text \<open>
  \<^verbatim>\<open>_createApiKeyLogMessage\<close>. An object literal evaluates its properties in order:
  the clock is read for the id first, then for the timestamp.
\<close>

definition createApiKeyLogMessage ::
  "Env \<Rightarrow> string \<Rightarrow> string \<Rightarrow> SelectedKeyInfo \<Rightarrow> Stage \<Rightarrow> Run \<Rightarrow> ChatMessageData \<times> Run" where
  "createApiKeyLogMessage env cid minionName keyInfo stage run =
     (let (t1, run1) = Date_now env run;
          (t2, run2) = Date_now env run1
      in ((systemMessage (''sys-keylog-'' @ minionName @ ''-'' @ show_nat t1) cid
             (minionName @ '' is using key '' @ [CHR 0x27] @ sel_name keyInfo @ [CHR 0x27] @ '' ('' @
              methodName (sel_method keyInfo) @ '') for '' @ stageName stage @ ''.'') t2)
            \<lparr>isApiKeyLog := Some True\<rparr>, run2))"

text \<open>
  \<^verbatim>\<open>updateMinionState\<close>. Opinion maps and plans are values here. In the source the agent's
  \<^verbatim>\<open>opinionScores\<close> is afterwards the same object as \<^verbatim>\<open>plan.finalOpinions\<close>, so a later
  \<^verbatim>\<open>addMinion\<close> also writes into the plan kept as the diary; no statement below reads a
  kept plan after a later creation.
\<close>

definition updateMinionState :: "string \<Rightarrow> PerceptionPlan \<Rightarrow> LegionApiService \<Rightarrow> LegionApiService" where
  "updateMinionState minionId plan s =
     (case findIndex (\<lambda>m. minion_id m = minionId) (minionConfigs s) of
        None \<Rightarrow> s
      | Some minionIndex \<Rightarrow>
          s\<lparr>minionConfigs := (minionConfigs s)[minionIndex :=
              (minionConfigs s ! minionIndex)\<lparr>opinionScores := finalOpinions plan, lastDiaryState := Some plan\<rparr>]\<rparr>)"

definition setMessages :: "string \<Rightarrow> ChatMessageData list \<Rightarrow> Run \<Rightarrow> Run" where
  "setMessages cid ms run = run\<lparr>service := (service run)\<lparr>messages := (messages (service run))(cid \<mapsto> ms)\<rparr>\<rparr>"

subsection \<open>Response stage (runStreamingResponse)\<close>

text \<open>
  The error branches replace, in the stored list, the message that carries the id; the
  completion branch replaces it or, when no stored message carries the id, appends.
\<close>

definition errorFinalize :: "Env \<Rightarrow> string \<Rightarrow> string \<Rightarrow> MinionConfig \<Rightarrow> string \<Rightarrow> Run \<Rightarrow> Run" where
  "errorFinalize env cid messageId minion text run =
     (let (t, run1) = Date_now env run;
          errorMsg = (aiMessage messageId cid (minion_name minion) text t)\<lparr>isError := Some True, isProcessing := Some False\<rparr>;
          run2 = emit (OnMinionResponse errorMsg) run1
      in setMessages cid (map (\<lambda>m. if msg_id m = messageId then errorMsg else m) (messagesOf (service run2) cid)) run2)"

definition finalize :: "Env \<Rightarrow> string \<Rightarrow> string \<Rightarrow> MinionConfig \<Rightarrow> PerceptionPlan \<Rightarrow> string \<Rightarrow> Run \<Rightarrow> Run" where
  "finalize env cid messageId minion plan accumulatedContent run =
     (let finalContent = trim accumulatedContent;
          (t, run1) = Date_now env run;
          finalMessage = (aiMessage messageId cid (minion_name minion) finalContent t)
            \<lparr>internalDiary := Some plan, isProcessing := Some False\<rparr>;
          run2 = emit (OnMinionResponse finalMessage) run1;
          run3 = run2\<lparr>service := updateMinionState (minion_id minion) plan (service run2)\<rparr>;
          existingMessages = messagesOf (service run3) cid
      in case findIndex (\<lambda>m. msg_id m = messageId) existingMessages of
           Some msgIndex \<Rightarrow> setMessages cid (existingMessages[msgIndex := finalMessage]) run3
         | None \<Rightarrow> setMessages cid (existingMessages @ [finalMessage]) run3)"

text \<open>The two handlers that \<^verbatim>\<open>runStreamingResponse\<close> passes to the stream.\<close>

fun streamHandler ::
  "Env \<Rightarrow> string \<Rightarrow> string \<Rightarrow> MinionConfig \<Rightarrow> PerceptionPlan \<Rightarrow> StreamCallback \<Rightarrow> string \<times> Run \<Rightarrow> string \<times> Run" where
  "streamHandler env cid messageId minion plan (OnStreamChunk chunk isFinal) (accumulatedContent, run) =
     (if \<not> isFinal then (accumulatedContent @ chunk, emit (OnMinionResponseChunk cid messageId chunk) run)
      else (accumulatedContent, finalize env cid messageId minion plan accumulatedContent run))"
| "streamHandler env cid messageId minion plan (OnError errorMessage) (accumulatedContent, run) =
     (accumulatedContent, errorFinalize env cid messageId minion (''Error: '' @ errorMessage) run)"

definition runStreamingResponse ::
  "Env \<Rightarrow> string \<Rightarrow> string \<Rightarrow> MinionConfig \<Rightarrow> PerceptionPlan \<Rightarrow> ResponsePrompt \<Rightarrow> SelectedKeyInfo \<Rightarrow> Run \<Rightarrow> Run" where
  "runStreamingResponse env cid messageId minion plan prompt keyInfo run =
     (if sel_key keyInfo = []
      then errorFinalize env cid messageId minion ''Error: No API key available for response generation.'' run
      else (let (callbacks, run1) =
                  callGeminiAPIStream env prompt (model_id minion) (temperature minion) (sel_key keyInfo) run
            in snd (fold (streamHandler env cid messageId minion plan) callbacks ([], run1))))"

subsection \<open>Perception stage\<close>

record PerceptionResult =
  res_minion :: MinionConfig
  res_plan :: "PerceptionPlan option"
  res_error :: "string option"

text \<open>The test \<^verbatim>\<open>error\<close> on an optional string: absent and empty are falsy.\<close>

definition truthy :: "string option \<Rightarrow> bool" where
  "truthy e = (case e of None \<Rightarrow> False | Some text \<Rightarrow> text \<noteq> [])"

definition perceptionPrompt :: "MinionConfig \<Rightarrow> string \<Rightarrow> string \<Rightarrow> ChannelType \<Rightarrow> PerceptionPrompt" where
  "perceptionPrompt minion history sender kind =
     \<lparr>pp_minionName = minion_name minion, pp_personaPrompt = system_prompt_persona minion,
      pp_previousDiary = lastDiaryState minion, pp_currentOpinionScores = opinionScores minion,
      pp_channelHistoryString = history, pp_lastMessageSenderName = sender, pp_channelType = kind\<rparr>"

text \<open>The callback of \<^verbatim>\<open>minionsInChannel.map\<close> in \<^verbatim>\<open>handleUserMessage\<close>.\<close>

definition perceiveForUser ::
  "Env \<Rightarrow> string \<Rightarrow> ChatMessageData \<Rightarrow> Channel \<Rightarrow> string \<Rightarrow> MinionConfig \<Rightarrow> Run \<Rightarrow> (error \<times> Run) + (PerceptionResult \<times> Run)" where
  "perceiveForUser env cid userMessage activeChannel initialChatHistory minion run =
     (case selectApiKey (service run) (Some minion) of
        Inl (e, s') \<Rightarrow> Inl (e, run\<lparr>service := s'\<rparr>)
      | Inr (keyInfo, s') \<Rightarrow>
          (let (logMessage, run1) =
                 createApiKeyLogMessage env cid (minion_name minion) keyInfo Perception (run\<lparr>service := s'\<rparr>);
               run2 = emit (OnSystemMessage logMessage) run1
           in if sel_key keyInfo = []
              then Inr (\<lparr>res_minion = minion, res_plan = None, res_error = Some ''No API key available.''\<rparr>, run2)
              else (let ((plan, err), run3) =
                          callGeminiApiForJson env
                            (perceptionPrompt minion initialChatHistory (senderName userMessage) (channel_type activeChannel))
                            (model_id minion) (temperature minion) (sel_key keyInfo) run2
                    in Inr (\<lparr>res_minion = minion, res_plan = plan, res_error = err\<rparr>, run3))))"

text \<open>The callback of \<^verbatim>\<open>minionsInChannel.map\<close> in \<^verbatim>\<open>triggerNextAutoChatTurn\<close>.\<close>

definition perceiveForAuto ::
  "Env \<Rightarrow> string \<Rightarrow> ChatMessageData \<Rightarrow> Channel \<Rightarrow> string \<Rightarrow> MinionConfig \<Rightarrow> Run \<Rightarrow> (error \<times> Run) + (PerceptionResult \<times> Run)" where
  "perceiveForAuto env cid lastMessage activeChannel chatHistory minion run =
     (if minion_name minion = senderName lastMessage
      then Inr (\<lparr>res_minion = minion, res_plan = None, res_error = Some ''Cannot respond to self.''\<rparr>, run)
      else (case selectApiKey (service run) (Some minion) of
              Inl (e, s') \<Rightarrow> Inl (e, run\<lparr>service := s'\<rparr>)
            | Inr (keyInfo, s') \<Rightarrow>
                (let (logMessage, run1) =
                       createApiKeyLogMessage env cid (minion_name minion) keyInfo Perception (run\<lparr>service := s'\<rparr>);
                     run2 = emit (OnSystemMessage logMessage) run1
                 in if sel_key keyInfo = []
                    then Inr (\<lparr>res_minion = minion, res_plan = None, res_error = Some ''No API key available.''\<rparr>, run2)
                    else (let ((plan, err), run3) =
                                callGeminiApiForJson env
                                  (perceptionPrompt minion chatHistory (senderName lastMessage) (channel_type activeChannel))
                                  (model_id minion) (temperature minion) (sel_key keyInfo) run2
                          in Inr (\<lparr>res_minion = minion, res_plan = plan, res_error = err\<rparr>, run3)))))"

subsection \<open>Turn scheduler: the batch a human message triggers (handleUserMessage)\<close>

text \<open>
  A speaker is an agent with the plan its perception call produced. The agent is the
  object of \<^verbatim>\<open>minionConfigs\<close> itself; \<^verbatim>\<open>updateMinionState\<close> changes its opinion map and
  its diary only, and the batch reads neither of the two after the perception calls are
  issued, so the copy taken at that point stands for the object.
\<close>

type_synonym Speaker = "MinionConfig \<times> PerceptionPlan"

text \<open>One iteration of \<^verbatim>\<open>for (const { minion, plan, error } of perceptionResults)\<close>.\<close>

definition processResult :: "Env \<Rightarrow> string \<Rightarrow> PerceptionResult \<Rightarrow> Speaker list \<times> Run \<Rightarrow> Speaker list \<times> Run" where
  "processResult env cid r acc =
     (let (minionsWhoWillSpeak, run) = acc;
          minion = res_minion r
      in case (if truthy (res_error r) then None else res_plan r) of
           None \<Rightarrow>
             (let (t1, run1) = Date_now env run;
                  (t2, run2) = Date_now env run1
              in (minionsWhoWillSpeak,
                  emit (OnSystemMessage
                    ((systemMessage (''sys-err-'' @ minion_id minion @ ''-'' @ show_nat t1) cid
                       (''Error during '' @ minion_name minion @ [CHR 0x27] @ ''s perception stage: '' @
                        (if truthy (res_error r) then the (res_error r) else ''No plan returned.'')) t2)
                     \<lparr>isError := Some True\<rparr>)) run2))
         | Some plan \<Rightarrow>
             (let run1 = run\<lparr>service := updateMinionState (minion_id minion) plan (service run)\<rparr>
              in if action plan = SPEAK then (minionsWhoWillSpeak @ [(minion, plan)], run1)
                 else (let (t1, run2) = Date_now env run1;
                           (t2, run3) = Date_now env run2
                       in (minionsWhoWillSpeak,
                           emit (OnSystemMessage
                             (systemMessage (''sys-silent-'' @ minion_id minion @ ''-'' @ show_nat t1) cid
                                (minion_name minion @ '' chose to remain silent.'') t2)) run3))))"

text \<open>One iteration of \<^verbatim>\<open>for (const { minion, plan } of minionsWhoWillSpeak)\<close>.\<close>

definition speakerTurn :: "Env \<Rightarrow> string \<Rightarrow> Speaker \<Rightarrow> string \<Rightarrow> Run \<Rightarrow> (error \<times> Run) + (string \<times> Run)" where
  "speakerTurn env cid speaker dynamicChatHistory run =
     (let (minion, plan) = speaker;
          (t1, run1) = Date_now env run;
          tempMessageId = ''ai-'' @ minion_id minion @ ''-'' @ show_nat t1;
          (t2, run2) = Date_now env run1;
          tempStreamingMessage = (aiMessage tempMessageId cid (minion_name minion) [] t2)\<lparr>isProcessing := Some True\<rparr>;
          run3 = emit (OnMinionResponse tempStreamingMessage) run2;
          responseGenPrompt = \<lparr>rp_minionName = minion_name minion, rp_personaPrompt = system_prompt_persona minion,
             rp_channelHistoryString = dynamicChatHistory, rp_plan = plan\<rparr>
      in case selectApiKey (service run3) (Some minion) of
           Inl (e, s') \<Rightarrow> Inl (e, run3\<lparr>service := s'\<rparr>)
         | Inr (keyInfo, s') \<Rightarrow>
             (let (logMessage, run4) =
                    createApiKeyLogMessage env cid (minion_name minion) keyInfo Response (run3\<lparr>service := s'\<rparr>);
                  run5 = emit (OnSystemMessage logMessage) run4;
                  run6 = runStreamingResponse env cid tempMessageId minion plan responseGenPrompt keyInfo run5;
                  history' = (case find (\<lambda>m. msg_id m = tempMessageId) (messagesOf (service run6) cid) of
                      Some finalMessage \<Rightarrow>
                        dynamicChatHistory @ [CHR 0x0A] @ ''[MINION '' @ minion_name minion @ '']: '' @ content finalMessage
                    | None \<Rightarrow> dynamicChatHistory)
              in Inr (history', emit (OnMinionProcessingUpdate (minion_name minion) False) run6)))"

fun respondAll :: "Env \<Rightarrow> string \<Rightarrow> Speaker list \<Rightarrow> string \<Rightarrow> Run \<Rightarrow> (error \<times> Run) + Run" where
  "respondAll env cid [] dynamicChatHistory run = Inr run"
| "respondAll env cid (speaker # rest) dynamicChatHistory run =
     (case speakerTurn env cid speaker dynamicChatHistory run of
        Inl e \<Rightarrow> Inl e
      | Inr (history', run') \<Rightarrow> respondAll env cid rest history' run')"

text \<open>
  \<^verbatim>\<open>Array.prototype.sort\<close> with the comparator \<^verbatim>\<open>a.plan.predictedResponseTime -
  b.plan.predictedResponseTime\<close>: ascending and stable, as \<open>sort_key\<close> is.
\<close>

definition sortByPredictedResponseTime :: "Speaker list \<Rightarrow> Speaker list" where
  "sortByPredictedResponseTime speakers = sort_key (\<lambda>speaker. predictedResponseTime (snd speaker)) speakers"

definition minionsInChannelOf :: "LegionApiService \<Rightarrow> Channel \<Rightarrow> MinionConfig list" where
  "minionsInChannelOf s activeChannel =
     filter (\<lambda>minion. minion_name minion \<in> set (members activeChannel)) (minionConfigs s)"

definition markSilentIdle :: "Speaker list \<Rightarrow> MinionConfig \<Rightarrow> Run \<Rightarrow> Run" where
  "markSilentIdle minionsWhoWillSpeak m run =
     (if \<not> list_ex (\<lambda>speaker. minion_id (fst speaker) = minion_id m) minionsWhoWillSpeak
      then emit (OnMinionProcessingUpdate (minion_name m) False) run else run)"

text \<open>
  \<^verbatim>\<open>handleUserMessage\<close> from \<^verbatim>\<open>const minionsWhoWillSpeak = []\<close> to its end: what the
  batch does with the settled perception results.
\<close>

definition scheduleUser :: "Env \<Rightarrow> string \<Rightarrow> MinionConfig list \<Rightarrow> string \<Rightarrow> PerceptionResult list \<Rightarrow> Run \<Rightarrow> (error \<times> Run) + Run" where
  "scheduleUser env cid minionsInChannel initialChatHistory perceptionResults run2 =
     (let (minionsWhoWillSpeak, run3) = fold (processResult env cid) perceptionResults ([], run2);
          run4 = fold (markSilentIdle minionsWhoWillSpeak) minionsInChannel run3
      in respondAll env cid (sortByPredictedResponseTime minionsWhoWillSpeak) initialChatHistory run4)"

definition handleUserMessage :: "Env \<Rightarrow> string \<Rightarrow> ChatMessageData \<Rightarrow> Run \<Rightarrow> (error \<times> Run) + Run" where
  "handleUserMessage env cid userMessage run0 =
     (let run = setMessages cid (messagesOf (service run0) cid @ [userMessage]) run0
      in case find (\<lambda>c. channel_id c = cid) (channels (service run)) of
           None \<Rightarrow> Inr run
         | Some activeChannel \<Rightarrow>
             (let minionsInChannel = minionsInChannelOf (service run) activeChannel
              in if minionsInChannel = [] then Inr run
                 else (let initialChatHistory = formatChatHistoryForLLM (messagesOf (service run) cid) cid;
                           run1 = fold (\<lambda>m. emit (OnMinionProcessingUpdate (minion_name m) True)) minionsInChannel run
                       in case mapRun (perceiveForUser env cid userMessage activeChannel initialChatHistory)
                                 minionsInChannel run1 of
                            Inl e \<Rightarrow> Inl e
                          | Inr (perceptionResults, run2) \<Rightarrow>
                              scheduleUser env cid minionsInChannel initialChatHistory perceptionResults run2)))"

subsection \<open>Turn scheduler: the autonomous batch (triggerNextAutoChatTurn)\<close>

text \<open>The filter \<^verbatim>\<open>!!r.plan && r.plan.action === 'SPEAK'\<close> of the source.\<close>

fun autoSpeakers :: "PerceptionResult list \<Rightarrow> Speaker list" where
  "autoSpeakers [] = []"
| "autoSpeakers (r # rs) =
     (case res_plan r of
        None \<Rightarrow> autoSpeakers rs
      | Some plan \<Rightarrow> if action plan = SPEAK then (res_minion r, plan) # autoSpeakers rs else autoSpeakers rs)"

definition allSilentText :: string where
  "allSilentText = ''All minions chose to remain silent this turn.''"

definition autoNotice :: "Env \<Rightarrow> string \<Rightarrow> string \<Rightarrow> string \<Rightarrow> Run \<Rightarrow> Run" where
  "autoNotice env idPrefix cid text run =
     (let (t1, run1) = Date_now env run;
          (t2, run2) = Date_now env run1
      in emit (OnSystemMessage (systemMessage (idPrefix @ show_nat t1) cid text t2)) run2)"

definition autoSpeakerTurn :: "Env \<Rightarrow> string \<Rightarrow> Speaker \<Rightarrow> string \<Rightarrow> Run \<Rightarrow> (error \<times> Run) + Run" where
  "autoSpeakerTurn env cid nextSpeaker chatHistory run =
     (let (minion, plan) = nextSpeaker;
          run0 = emit (OnMinionProcessingUpdate (minion_name minion) True) run;
          (t1, run1) = Date_now env run0;
          tempMessageId = ''ai-'' @ minion_id minion @ ''-'' @ show_nat t1;
          (t2, run2) = Date_now env run1;
          placeholderMessage = (aiMessage tempMessageId cid (minion_name minion) [] t2)\<lparr>isProcessing := Some True\<rparr>;
          run3 = emit (OnMinionResponse placeholderMessage) run2;
          responsePrompt = \<lparr>rp_minionName = minion_name minion, rp_personaPrompt = system_prompt_persona minion,
             rp_channelHistoryString = chatHistory, rp_plan = plan\<rparr>
      in case selectApiKey (service run3) (Some minion) of
           Inl (e, s') \<Rightarrow> Inl (e, run3\<lparr>service := s'\<rparr>)
         | Inr (keyInfo, s') \<Rightarrow>
             (let (logMessage, run4) =
                    createApiKeyLogMessage env cid (minion_name minion) keyInfo Response (run3\<lparr>service := s'\<rparr>);
                  run5 = emit (OnSystemMessage logMessage) run4;
                  run6 = runStreamingResponse env cid tempMessageId minion plan responsePrompt keyInfo run5
              in Inr (emit (OnMinionProcessingUpdate (minion_name minion) False) run6)))"

text \<open>
  \<^verbatim>\<open>triggerNextAutoChatTurn\<close> from \<^verbatim>\<open>const speakers = results.filter(...).sort(...)\<close>
  to its end.
\<close>

definition scheduleAuto :: "Env \<Rightarrow> string \<Rightarrow> MinionConfig list \<Rightarrow> string \<Rightarrow> PerceptionResult list \<Rightarrow> Run \<Rightarrow> (error \<times> Run) + Run" where
  "scheduleAuto env cid minionsInChannel chatHistory results run2 =
     (let speakers = sortByPredictedResponseTime (autoSpeakers results);
          run3 = fold (\<lambda>m. emit (OnMinionProcessingUpdate (minion_name m) False)) minionsInChannel run2
      in case speakers of
           [] \<Rightarrow> Inr (autoNotice env ''sys-auto-silent-'' cid allSilentText run3)
         | nextSpeaker # others \<Rightarrow> autoSpeakerTurn env cid nextSpeaker chatHistory run3)"

definition triggerNextAutoChatTurn :: "Env \<Rightarrow> string \<Rightarrow> Run \<Rightarrow> (error \<times> Run) + Run" where
  "triggerNextAutoChatTurn env cid run =
     (case find (\<lambda>c. channel_id c = cid) (channels (service run)) of
        None \<Rightarrow> Inr run
      | Some activeChannel \<Rightarrow>
          if isAutoModeActive activeChannel \<noteq> Some True then Inr run
          else (let minionsInChannel = minionsInChannelOf (service run) activeChannel
                in if length minionsInChannel < 2
                   then Inr (autoNotice env ''sys-auto-err-'' cid
                               ''Auto-mode paused. Requires at least 2 minions in the channel.'' run)
                   else (let currentMessages = messagesOf (service run) cid;
                             chatHistory = formatChatHistoryForLLM currentMessages cid
                         in case (if currentMessages = [] then None else Some (last currentMessages)) of
                              None \<Rightarrow> Inr run
                            | Some lastMessage \<Rightarrow>
                                (let run1 = fold (\<lambda>m. emit (OnMinionProcessingUpdate (minion_name m) True))
                                              minionsInChannel run
                                 in case mapRun (perceiveForAuto env cid lastMessage activeChannel chatHistory)
                                           minionsInChannel run1 of
                                      Inl e \<Rightarrow> Inl e
                                    | Inr (results, run2) \<Rightarrow>
                                        scheduleAuto env cid minionsInChannel chatHistory results run2))))"

section \<open>Example states\<close>

text \<open>Concrete services and agents on which the theorems below are instantiated.\<close>

definition emptyService :: LegionApiService where
  "emptyService = \<lparr>minionConfigs = [], channels = [], messages = Map.empty, apiKeys = [], apiKeyRoundRobinIndex = 0\<rparr>"

definition demoKey :: "string \<Rightarrow> string \<Rightarrow> string \<Rightarrow> ApiKey" where
  "demoKey kid name secret = \<lparr>apiKey_id = kid, apiKey_name = name, apiKey_key = secret\<rparr>"

definition demoPool :: "ApiKey list \<Rightarrow> nat \<Rightarrow> LegionApiService" where
  "demoPool ks cursor = emptyService\<lparr>apiKeys := ks, apiKeyRoundRobinIndex := cursor\<rparr>"

lemma show_nat_digit [simp]: "n < 10 \<Longrightarrow> show_nat n = [digit_char n]"
  by (simp add: show_nat.simps)

lemma digit_chars [simp]:
  "digit_char 0 = CHR ''0''" "digit_char 1 = CHR ''1''" "digit_char 2 = CHR ''2''" "digit_char 3 = CHR ''3''"
  by (simp_all add: digit_char_def)

definition demoMinion :: "string \<Rightarrow> string \<Rightarrow> string option \<Rightarrow> MinionConfig" where
  "demoMinion mid name pin =
     \<lparr>minion_id = mid, minion_name = name, model_id = ''flash'', model_name = None,
      system_prompt_persona = ''Terse.'', temperature = 7 / 10, apiKeyId = pin,
      opinionScores = [LEGION_COMMANDER_NAME \<mapsto> 50], lastDiaryState = None, status = Some ''Idle'',
      currentTask = None\<rparr>"

definition alphaOnly :: LegionApiService where
  "alphaOnly = emptyService\<lparr>minionConfigs := [demoMinion ''minion-1'' ''Alpha'' None]\<rparr>"

section \<open>Credential pool: round robin and pinning\<close>

text \<open>
  With a cursor inside the pool and no pin, \<open>k\<close> selections on a pool of \<open>k\<close> credentials
  return the pool rotated to the cursor, and the cursor is back where it started.
\<close>

definition loadBalanced :: "ApiKey \<Rightarrow> error + SelectedKeyInfo" where
  "loadBalanced k = Inr \<lparr>sel_key = apiKey_key k, sel_name = apiKey_name k, sel_method = Load_Balanced\<rparr>"

lemma selectApiKey_in_range:
  assumes "pinnedKeyId who = None" and "apiKeyRoundRobinIndex s < length (apiKeys s)"
  shows "selectApiKey s who =
     Inr (\<lparr>sel_key = apiKey_key (apiKeys s ! apiKeyRoundRobinIndex s),
           sel_name = apiKey_name (apiKeys s ! apiKeyRoundRobinIndex s), sel_method = Load_Balanced\<rparr>,
          s\<lparr>apiKeyRoundRobinIndex := (apiKeyRoundRobinIndex s + 1) mod length (apiKeys s)\<rparr>)"
proof -
  have "apiKeys s \<noteq> []" using assms(2) by auto
  then show ?thesis using assms by (simp add: selectApiKey_def)
qed

text \<open>A cursor past the end of a pool that is not empty: the selection throws and leaves the cursor inside the pool.\<close>

lemma selectApiKey_past_end:
  assumes "pinnedKeyId who = None" and "apiKeys s \<noteq> []" and "length (apiKeys s) \<le> apiKeyRoundRobinIndex s"
  shows "selectApiKey s who =
     Inl (TypeError ''Cannot read properties of undefined (reading 'key')'',
          s\<lparr>apiKeyRoundRobinIndex := (apiKeyRoundRobinIndex s + 1) mod length (apiKeys s)\<rparr>)"
    and "(apiKeyRoundRobinIndex s + 1) mod length (apiKeys s) < length (apiKeys s)"
  using assms by (simp_all add: selectApiKey_def)

lemma selectMany_steps:
  assumes "pinnedKeyId who = None" and "apiKeyRoundRobinIndex s < length (apiKeys s)" and "n \<le> length (apiKeys s)"
  shows "selectMany n s who =
     (map (\<lambda>i. loadBalanced (apiKeys s ! ((apiKeyRoundRobinIndex s + i) mod length (apiKeys s)))) [0..<n],
      s\<lparr>apiKeyRoundRobinIndex := (apiKeyRoundRobinIndex s + n) mod length (apiKeys s)\<rparr>)"
  using assms
proof (induction n arbitrary: s)
  case 0
  then show ?case by simp
next
  case (Suc n)
  let ?k = "length (apiKeys s)"
  let ?c = "apiKeyRoundRobinIndex s"
  let ?s' = "s\<lparr>apiKeyRoundRobinIndex := (?c + 1) mod ?k\<rparr>"
  have pos: "0 < ?k" using Suc.prems by (cases "apiKeys s") auto
  have sel: "selectApiKey s who =
      Inr (\<lparr>sel_key = apiKey_key (apiKeys s ! ?c), sel_name = apiKey_name (apiKeys s ! ?c), sel_method = Load_Balanced\<rparr>, ?s')"
    using selectApiKey_in_range [OF Suc.prems(1) Suc.prems(2)] .
  have ih: "selectMany n ?s' who =
     (map (\<lambda>i. loadBalanced (apiKeys s ! (((?c + 1) mod ?k + i) mod ?k))) [0..<n],
      s\<lparr>apiKeyRoundRobinIndex := ((?c + 1) mod ?k + n) mod ?k\<rparr>)"
    using Suc.IH [of ?s'] Suc.prems pos by simp
  have shift: "\<And>i. ((?c + 1) mod ?k + i) mod ?k = (?c + Suc i) mod ?k"
    by (simp add: mod_add_left_eq)
  have upt: "[0..<Suc n] = 0 # map Suc [0..<n]"
    using upt_conv_Cons [of 0 "Suc n"] by (simp only: map_Suc_upt zero_less_Suc)
  have "selectMany (Suc n) s who =
     (loadBalanced (apiKeys s ! ?c) #
          map (\<lambda>i. loadBalanced (apiKeys s ! ((?c + Suc i) mod ?k))) [0..<n],
      s\<lparr>apiKeyRoundRobinIndex := (?c + Suc n) mod ?k\<rparr>)"
    by (simp only: selectMany.simps sel ih shift sum.case prod.case Let_def loadBalanced_def)
  moreover have "?c mod ?k = ?c" using Suc.prems by simp
  ultimately show ?case
    by (simp only: upt list.map map_map o_def add_0_right)
qed

lemma rotate_as_map:
  "rotate c xs = map (\<lambda>i. xs ! ((c + i) mod length xs)) [0..<length xs]"
  by (rule nth_equalityI) (simp_all add: nth_rotate)

lemma round_robin_visits_all:
  assumes "pinnedKeyId who = None" and "apiKeyRoundRobinIndex s < length (apiKeys s)"
  shows "selectMany (length (apiKeys s)) s who =
     (map loadBalanced (rotate (apiKeyRoundRobinIndex s) (apiKeys s)), s)"
proof -
  have "selectMany (length (apiKeys s)) s who =
     (map (\<lambda>i. loadBalanced (apiKeys s ! ((apiKeyRoundRobinIndex s + i) mod length (apiKeys s)))) [0..<length (apiKeys s)],
      s\<lparr>apiKeyRoundRobinIndex := (apiKeyRoundRobinIndex s + length (apiKeys s)) mod length (apiKeys s)\<rparr>)"
    using selectMany_steps [OF assms, of "length (apiKeys s)"] by simp
  moreover have "(apiKeyRoundRobinIndex s + length (apiKeys s)) mod length (apiKeys s) = apiKeyRoundRobinIndex s"
    using assms(2) by simp
  ultimately show ?thesis
    by (simp add: rotate_as_map [of "apiKeyRoundRobinIndex s" "apiKeys s"] o_def)
qed

lemma selectMany_numeral:
  "selectMany (numeral n) s who =
     (case selectApiKey s who of
        Inl (e, s') \<Rightarrow> (let (outcomes, s'') = selectMany (pred_numeral n) s' who in (Inl e # outcomes, s''))
      | Inr (info, s') \<Rightarrow> (let (outcomes, s'') = selectMany (pred_numeral n) s' who in (Inr info # outcomes, s'')))"
  "selectMany 1 s who =
     (case selectApiKey s who of
        Inl (e, s') \<Rightarrow> (let (outcomes, s'') = selectMany 0 s' who in (Inl e # outcomes, s''))
      | Inr (info, s') \<Rightarrow> (let (outcomes, s'') = selectMany 0 s' who in (Inr info # outcomes, s'')))"
  by (simp_all add: numeral_eq_Suc)

lemma pool_sizes: "length [k1, k2] = (2::nat)" "length [k1, k2, k3] = (3::nat)"
  by simp_all

text \<open>
  C3. For every credential-pool state with \<open>k\<close> credentials and no pin, \<open>k\<close> consecutive
  selections return every credential once, in insertion order from the cursor. The
  pool below is reached through the service's own methods: three credentials are added,
  two selections move the cursor to 2, and \<^verbatim>\<open>deleteApiKey\<close> removes a credential without
  touching the cursor. The pool then holds two credentials, Key B and Key C, and the
  cursor is 2. The next selection reads past the end, moves the cursor to 1 and throws;
  the selection after it returns Key C and moves the cursor to 0. So the two consecutive
  selections of the claim return Key C once and Key B not at all; it takes a third
  selection to reach Key B.
\<close>

theorem selectApiKey_stale_cursor:
  "addApiKey 1 ''Key A'' ''secret-a'' (demoPool [] 0) = Inr (demoPool [demoKey ''key-1'' ''Key A'' ''secret-a''] 0)
   \<and> addApiKey 2 ''Key B'' ''secret-b'' (demoPool [demoKey ''key-1'' ''Key A'' ''secret-a''] 0)
       = Inr (demoPool [demoKey ''key-1'' ''Key A'' ''secret-a'', demoKey ''key-2'' ''Key B'' ''secret-b''] 0)
   \<and> addApiKey 3 ''Key C'' ''secret-c'' (demoPool [demoKey ''key-1'' ''Key A'' ''secret-a'', demoKey ''key-2'' ''Key B'' ''secret-b''] 0)
       = Inr (demoPool [demoKey ''key-1'' ''Key A'' ''secret-a'', demoKey ''key-2'' ''Key B'' ''secret-b'', demoKey ''key-3'' ''Key C'' ''secret-c''] 0)
   \<and> selectMany 2 (demoPool [demoKey ''key-1'' ''Key A'' ''secret-a'', demoKey ''key-2'' ''Key B'' ''secret-b'', demoKey ''key-3'' ''Key C'' ''secret-c''] 0) None
       = ([Inr \<lparr>sel_key = ''secret-a'', sel_name = ''Key A'', sel_method = Load_Balanced\<rparr>,
           Inr \<lparr>sel_key = ''secret-b'', sel_name = ''Key B'', sel_method = Load_Balanced\<rparr>],
          demoPool [demoKey ''key-1'' ''Key A'' ''secret-a'', demoKey ''key-2'' ''Key B'' ''secret-b'', demoKey ''key-3'' ''Key C'' ''secret-c''] 2)
   \<and> deleteApiKey ''key-1'' (demoPool [demoKey ''key-1'' ''Key A'' ''secret-a'', demoKey ''key-2'' ''Key B'' ''secret-b'', demoKey ''key-3'' ''Key C'' ''secret-c''] 2)
       = demoPool [demoKey ''key-2'' ''Key B'' ''secret-b'', demoKey ''key-3'' ''Key C'' ''secret-c''] 2
   \<and> selectApiKey (demoPool [demoKey ''key-2'' ''Key B'' ''secret-b'', demoKey ''key-3'' ''Key C'' ''secret-c''] 2) None
       = Inl (TypeError ''Cannot read properties of undefined (reading 'key')'',
              demoPool [demoKey ''key-2'' ''Key B'' ''secret-b'', demoKey ''key-3'' ''Key C'' ''secret-c''] 1)
   \<and> selectMany 2 (demoPool [demoKey ''key-2'' ''Key B'' ''secret-b'', demoKey ''key-3'' ''Key C'' ''secret-c''] 2) None
       = ([Inl (TypeError ''Cannot read properties of undefined (reading 'key')''),
           Inr \<lparr>sel_key = ''secret-c'', sel_name = ''Key C'', sel_method = Load_Balanced\<rparr>],
          demoPool [demoKey ''key-2'' ''Key B'' ''secret-b'', demoKey ''key-3'' ''Key C'' ''secret-c''] 0)
   \<and> selectMany 3 (demoPool [demoKey ''key-2'' ''Key B'' ''secret-b'', demoKey ''key-3'' ''Key C'' ''secret-c''] 2) None
       = ([Inl (TypeError ''Cannot read properties of undefined (reading 'key')''),
           Inr \<lparr>sel_key = ''secret-c'', sel_name = ''Key C'', sel_method = Load_Balanced\<rparr>,
           Inr \<lparr>sel_key = ''secret-b'', sel_name = ''Key B'', sel_method = Load_Balanced\<rparr>],
          demoPool [demoKey ''key-2'' ''Key B'' ''secret-b'', demoKey ''key-3'' ''Key C'' ''secret-c''] 1)"
  by (simp add: addApiKey_def deleteApiKey_def selectApiKey_def demoPool_def demoKey_def emptyService_def
      trim_def isWhiteSpace_def pinnedKeyId_def selectMany_numeral pool_sizes digit_char_def
      del: length_Cons list.size)

lemma find_in_pool:
  "kid \<in> apiKey_id ` set ks \<Longrightarrow> \<exists>k. find (\<lambda>k. apiKey_id k = kid) ks = Some k \<and> k \<in> set ks \<and> apiKey_id k = kid"
  by (induction ks) auto

lemma find_not_in_pool:
  "kid \<notin> apiKey_id ` set ks \<Longrightarrow> find (\<lambda>k. apiKey_id k = kid) ks = None"
  by (induction ks) auto

text \<open>
  C10. When the agent's pinned credential id is the id of a pooled credential, selection
  returns that credential (the first with the id): the returned key and name are the
  credential's, the method is \<open>Assigned\<close>, and the service, cursor included, is returned
  as it was. When the pinned id is the id of no pooled credential, selection is what it
  is for a caller without an agent, and for the same agent without its pin.
\<close>

theorem selectApiKey_pinned:
  "(pinnedKeyId (Some minion) = Some kid \<and> kid \<in> apiKey_id ` set (apiKeys s) \<longrightarrow>
      (\<exists>k. find (\<lambda>k. apiKey_id k = kid) (apiKeys s) = Some k \<and> k \<in> set (apiKeys s) \<and> apiKey_id k = kid \<and>
           selectApiKey s (Some minion) =
             Inr (\<lparr>sel_key = apiKey_key k, sel_name = apiKey_name k, sel_method = Assigned\<rparr>, s)))
   \<and> (pinnedKeyId (Some minion) = Some kid \<and> kid \<notin> apiKey_id ` set (apiKeys s) \<longrightarrow>
      selectApiKey s (Some minion) = selectApiKey s None \<and>
      selectApiKey s (Some minion) = selectApiKey s (Some (minion\<lparr>apiKeyId := None\<rparr>)))"
proof (intro conjI impI)
  assume a: "pinnedKeyId (Some minion) = Some kid \<and> kid \<in> apiKey_id ` set (apiKeys s)"
  then obtain k where k: "find (\<lambda>k. apiKey_id k = kid) (apiKeys s) = Some k" "k \<in> set (apiKeys s)" "apiKey_id k = kid"
    using find_in_pool by blast
  have "selectApiKey s (Some minion) =
      Inr (\<lparr>sel_key = apiKey_key k, sel_name = apiKey_name k, sel_method = Assigned\<rparr>, s)"
    using a k(1) by (simp add: selectApiKey_def)
  with k show "\<exists>k. find (\<lambda>k. apiKey_id k = kid) (apiKeys s) = Some k \<and> k \<in> set (apiKeys s) \<and> apiKey_id k = kid \<and>
           selectApiKey s (Some minion) =
             Inr (\<lparr>sel_key = apiKey_key k, sel_name = apiKey_name k, sel_method = Assigned\<rparr>, s)"
    by blast
next
  assume a: "pinnedKeyId (Some minion) = Some kid \<and> kid \<notin> apiKey_id ` set (apiKeys s)"
  then have none: "find (\<lambda>k. apiKey_id k = kid) (apiKeys s) = None"
    using find_not_in_pool by blast
  show "selectApiKey s (Some minion) = selectApiKey s None"
    using a none by (simp add: selectApiKey_def pinnedKeyId_def)
  show "selectApiKey s (Some minion) = selectApiKey s (Some (minion\<lparr>apiKeyId := None\<rparr>))"
    using a none by (simp add: selectApiKey_def pinnedKeyId_def)
qed

definition twoKeys :: LegionApiService where
  "twoKeys = demoPool [demoKey ''key-1'' ''Key A'' ''secret-a'', demoKey ''key-2'' ''Key B'' ''secret-b''] 1"

theorem selectApiKey_pinned_witness:
  "pinnedKeyId (Some (demoMinion ''minion-1'' ''Alpha'' (Some ''key-1''))) = Some ''key-1''
   \<and> ''key-1'' \<in> apiKey_id ` set (apiKeys twoKeys)
   \<and> selectApiKey twoKeys (Some (demoMinion ''minion-1'' ''Alpha'' (Some ''key-1'')))
       = Inr (\<lparr>sel_key = ''secret-a'', sel_name = ''Key A'', sel_method = Assigned\<rparr>, twoKeys)
   \<and> pinnedKeyId (Some (demoMinion ''minion-2'' ''Bravo'' (Some ''key-9''))) = Some ''key-9''
   \<and> ''key-9'' \<notin> apiKey_id ` set (apiKeys twoKeys)
   \<and> selectApiKey twoKeys (Some (demoMinion ''minion-2'' ''Bravo'' (Some ''key-9''))) = selectApiKey twoKeys None
   \<and> selectApiKey twoKeys None
       = Inr (\<lparr>sel_key = ''secret-b'', sel_name = ''Key B'', sel_method = Load_Balanced\<rparr>,
              twoKeys\<lparr>apiKeyRoundRobinIndex := 0\<rparr>)"
proof -
  have pool: "apiKeys twoKeys = [demoKey ''key-1'' ''Key A'' ''secret-a'', demoKey ''key-2'' ''Key B'' ''secret-b'']"
    "apiKeyRoundRobinIndex twoKeys = 1"
    by (simp_all add: twoKeys_def demoPool_def)
  have fields: "apiKey_id (demoKey ''key-1'' ''Key A'' ''secret-a'') = ''key-1''"
    "apiKey_id (demoKey ''key-2'' ''Key B'' ''secret-b'') = ''key-2''"
    "apiKey_key (demoKey ''key-1'' ''Key A'' ''secret-a'') = ''secret-a''"
    "apiKey_name (demoKey ''key-1'' ''Key A'' ''secret-a'') = ''Key A''"
    "apiKey_key (demoKey ''key-2'' ''Key B'' ''secret-b'') = ''secret-b''"
    "apiKey_name (demoKey ''key-2'' ''Key B'' ''secret-b'') = ''Key B''"
    by (simp_all add: demoKey_def)
  have p1: "pinnedKeyId (Some (demoMinion ''minion-1'' ''Alpha'' (Some ''key-1''))) = Some ''key-1''"
    and p2: "pinnedKeyId (Some (demoMinion ''minion-2'' ''Bravo'' (Some ''key-9''))) = Some ''key-9''"
    by (simp_all add: pinnedKeyId_def demoMinion_def)
  have in1: "''key-1'' \<in> apiKey_id ` set (apiKeys twoKeys)"
    and out9: "''key-9'' \<notin> apiKey_id ` set (apiKeys twoKeys)"
    by (simp_all add: pool fields)
  have first: "find (\<lambda>k. apiKey_id k = ''key-1'') (apiKeys twoKeys) = Some (demoKey ''key-1'' ''Key A'' ''secret-a'')"
    by (simp add: pool fields)
  have a: "selectApiKey twoKeys (Some (demoMinion ''minion-1'' ''Alpha'' (Some ''key-1'')))
       = Inr (\<lparr>sel_key = ''secret-a'', sel_name = ''Key A'', sel_method = Assigned\<rparr>, twoKeys)"
    using selectApiKey_pinned [of "demoMinion ''minion-1'' ''Alpha'' (Some ''key-1'')" "''key-1''" twoKeys] p1 in1 first
    by (auto simp: fields)
  have b: "selectApiKey twoKeys (Some (demoMinion ''minion-2'' ''Bravo'' (Some ''key-9''))) = selectApiKey twoKeys None"
    using selectApiKey_pinned [of "demoMinion ''minion-2'' ''Bravo'' (Some ''key-9'')" "''key-9''" twoKeys] p2 out9
    by blast
  have c: "selectApiKey twoKeys None
       = Inr (\<lparr>sel_key = ''secret-b'', sel_name = ''Key B'', sel_method = Load_Balanced\<rparr>,
              twoKeys\<lparr>apiKeyRoundRobinIndex := 0\<rparr>)"
    by (simp add: selectApiKey_def pinnedKeyId_def pool fields)
  show ?thesis using p1 p2 in1 out9 a b c by blast
qed

section \<open>Agent creation\<close>

lemma assignProperty_named: "name \<noteq> ''__proto__'' \<Longrightarrow> assignProperty obj name v = obj(name \<mapsto> v)"
  by (simp add: assignProperty_def)

lemma fold_seed_scores:
  "''__proto__'' \<notin> minion_name ` set ms \<Longrightarrow>
   fold (\<lambda>existingMinion scores. assignProperty scores (minion_name existingMinion) v) ms init x =
     (if x \<in> minion_name ` set ms then Some v else init x)"
  by (induction ms arbitrary: init) (auto simp: assignProperty_def)

text \<open>
  For names other than \<^verbatim>\<open>__proto__\<close> the seeding is complete. Immediately after adding
  agent X to a service: every agent that existed before is still at its position, with
  its id and name, and its opinion map holds 50 for X and is otherwise unchanged; X is
  the last agent; X's opinion map holds 50 for the commander and for every agent that
  existed before, and nothing else; X's diary is null.
\<close>

lemma addMinion_seeds_named:
  assumes "addMinion now config s = Inr (newMinion, s')"
    and "minion_name config \<noteq> ''__proto__''" and "''__proto__'' \<notin> minion_name ` set (minionConfigs s)"
  shows "length (minionConfigs s') = Suc (length (minionConfigs s))
    \<and> (\<forall>i < length (minionConfigs s).
          opinionScores (minionConfigs s' ! i) (minion_name config) = Some 50
          \<and> minion_id (minionConfigs s' ! i) = minion_id (minionConfigs s ! i)
          \<and> minion_name (minionConfigs s' ! i) = minion_name (minionConfigs s ! i)
          \<and> (\<forall>other. other \<noteq> minion_name config \<longrightarrow>
                opinionScores (minionConfigs s' ! i) other = opinionScores (minionConfigs s ! i) other))
    \<and> minionConfigs s' ! length (minionConfigs s) = newMinion
    \<and> minion_name newMinion = minion_name config
    \<and> opinionScores newMinion LEGION_COMMANDER_NAME = Some 50
    \<and> (\<forall>m \<in> set (minionConfigs s). opinionScores newMinion (minion_name m) = Some 50)
    \<and> dom (opinionScores newMinion) = insert LEGION_COMMANDER_NAME (minion_name ` set (minionConfigs s))
    \<and> lastDiaryState newMinion = None"
proof -
  let ?existing = "map (\<lambda>existingMinion.
      existingMinion\<lparr>opinionScores := assignProperty (opinionScores existingMinion) (minion_name config) 50\<rparr>) (minionConfigs s)"
  let ?scores = "fold (\<lambda>existingMinion scores. assignProperty scores (minion_name existingMinion) 50) ?existing
      [LEGION_COMMANDER_NAME \<mapsto> 50]"
  have new: "newMinion = config\<lparr>
      minion_id := (if minion_id config = [] then ''minion-'' @ show_nat now else minion_id config),
      opinionScores := ?scores, status := Some ''Idle'', lastDiaryState := None\<rparr>"
    and s': "s' = s\<lparr>minionConfigs := ?existing @ [newMinion]\<rparr>"
    using assms(1) by (auto simp: addMinion_def Let_def)
  have names: "minion_name ` set ?existing = minion_name ` set (minionConfigs s)"
    by (force simp: image_iff)
  have scores: "\<And>x. opinionScores newMinion x =
      (if x \<in> minion_name ` set (minionConfigs s) then Some 50 else [LEGION_COMMANDER_NAME \<mapsto> 50] x)"
    unfolding new using names assms(3) by (simp add: fold_seed_scores)
  have "dom (opinionScores newMinion) = insert LEGION_COMMANDER_NAME (minion_name ` set (minionConfigs s))"
    by (auto simp: scores dom_def split: if_splits)
  moreover have "\<forall>i < length (minionConfigs s).
          opinionScores (minionConfigs s' ! i) (minion_name config) = Some 50
          \<and> minion_id (minionConfigs s' ! i) = minion_id (minionConfigs s ! i)
          \<and> minion_name (minionConfigs s' ! i) = minion_name (minionConfigs s ! i)
          \<and> (\<forall>other. other \<noteq> minion_name config \<longrightarrow>
                opinionScores (minionConfigs s' ! i) other = opinionScores (minionConfigs s ! i) other)"
    by (simp add: s' nth_append assignProperty_named [OF assms(2)])
  moreover have "minionConfigs s' ! length (minionConfigs s) = newMinion"
    by (simp add: s' nth_append)
  moreover have "opinionScores newMinion LEGION_COMMANDER_NAME = Some 50"
    by (simp add: scores)
  moreover have "\<forall>m \<in> set (minionConfigs s). opinionScores newMinion (minion_name m) = Some 50"
    by (simp add: scores)
  moreover have "minion_name newMinion = minion_name config" "lastDiaryState newMinion = None"
    by (simp_all add: new)
  moreover have "length (minionConfigs s') = Suc (length (minionConfigs s))"
    by (simp add: s')
  ultimately show ?thesis by blast
qed

definition protoMinion :: MinionConfig where
  "protoMinion = (demoMinion ''minion-2'' ''__proto__'' None)
     \<lparr>opinionScores := [''Steven'' \<mapsto> 50, ''Alpha'' \<mapsto> 50], status := Some ''Idle''\<rparr>"

definition afterProto :: LegionApiService where
  "afterProto = emptyService\<lparr>minionConfigs := [demoMinion ''minion-1'' ''Alpha'' None, protoMinion]\<rparr>"

text \<open>
  C7. After every sequence of creations, every agent's opinion map contains the
  commander's name and every other agent's name, scored 50 at creation. The creation
  form accepts any name that is not blank and not taken, the name \<^verbatim>\<open>__proto__\<close> among
  them. On the service that holds the one agent Alpha, an agent named \<^verbatim>\<open>__proto__\<close> is
  created and then an agent named Bravo. Alpha's opinion map has no entry for
  \<^verbatim>\<open>__proto__\<close> after the first creation nor after the second, and Bravo's opinion map is
  created without one: it holds the commander and Alpha only. The entries the
  assignments do create are there: \<^verbatim>\<open>__proto__\<close> scores the commander and Alpha, and Alpha
  and \<^verbatim>\<open>__proto__\<close> score Bravo.
\<close>

theorem addMinion_proto_name_unseeded:
  "addMinion 2 (demoMinion ''minion-2'' ''__proto__'' None) alphaOnly = Inr (protoMinion, afterProto)
   \<and> map minion_name (minionConfigs afterProto) = [''Alpha'', ''__proto__'']
   \<and> map dom (map opinionScores (minionConfigs afterProto)) = [{''Steven''}, {''Steven'', ''Alpha''}]
   \<and> map_sum id (map minion_name \<circ> minionConfigs \<circ> snd) (addMinion 3 (demoMinion ''minion-3'' ''Bravo'' None) afterProto)
       = Inr [''Alpha'', ''__proto__'', ''Bravo'']
   \<and> map_sum id (map dom \<circ> map opinionScores \<circ> minionConfigs \<circ> snd)
        (addMinion 3 (demoMinion ''minion-3'' ''Bravo'' None) afterProto)
       = Inr [{''Steven'', ''Bravo''}, {''Steven'', ''Alpha'', ''Bravo''}, {''Steven'', ''Alpha''}]
   \<and> map_sum id (ran \<circ> opinionScores \<circ> fst) (addMinion 3 (demoMinion ''minion-3'' ''Bravo'' None) afterProto)
       = Inr {50}"
  by (auto simp: addMinion_def assignProperty_def alphaOnly_def afterProto_def protoMinion_def demoMinion_def
      emptyService_def LEGION_COMMANDER_NAME_def Let_def ran_def)

section \<open>Management operations on a missing entity\<close>

definition demoChannel :: "string \<Rightarrow> ChannelType \<Rightarrow> string list \<Rightarrow> bool \<Rightarrow> Channel" where
  "demoChannel cid kind names auto =
     \<lparr>channel_id = cid, channel_name = CHR ''#'' # cid, description = None, channel_type = kind,
      members = names, isPrivate = Some False, isAutoModeActive = Some auto,
      autoModeDelayType = Some fixed, autoModeFixedDelay = Some 5, autoModeRandomDelay = Some (3, 10)\<rparr>"

definition userMessage :: "string \<Rightarrow> string \<Rightarrow> string \<Rightarrow> nat \<Rightarrow> ChatMessageData" where
  "userMessage mid cid text now =
     \<lparr>msg_id = mid, channelId = cid, senderType = User, senderName = LEGION_COMMANDER_NAME, content = text,
      timestamp = now, internalDiary = None, isError = None, replyToMessageId = None,
      isProcessing = None, isApiKeyLog = None\<rparr>"

definition demoPayload :: "string \<Rightarrow> ChannelPayload" where
  "demoPayload cid =
     \<lparr>payload_id = cid, payload_name = ''#renamed'', payload_description = None, payload_type = user_minion_group,
      payload_members = [], payload_isPrivate = None, payload_isAutoModeActive = None,
      payload_autoModeDelayType = None, payload_autoModeFixedDelay = None, payload_autoModeRandomDelay = None\<rparr>"

definition oneOfEach :: LegionApiService where
  "oneOfEach =
     \<lparr>minionConfigs = [demoMinion ''minion-1'' ''Alpha'' None],
      channels = [demoChannel ''general'' user_minion_group [''Steven'', ''Alpha''] False],
      messages = [''general'' \<mapsto> [userMessage ''user-1'' ''general'' ''Report.'' 1]],
      apiKeys = [], apiKeyRoundRobinIndex = 0\<rparr>"

lemma findIndex_absent: "k \<notin> f ` set xs \<Longrightarrow> findIndex (\<lambda>m. f m = k) xs = None"
  by (induction xs) auto

lemma find_absent: "k \<notin> f ` set xs \<Longrightarrow> find (\<lambda>m. f m = k) xs = None"
  by (induction xs) auto

lemma filter_absent: "k \<notin> f ` set xs \<Longrightarrow> filter (\<lambda>m. f m \<noteq> k) xs = xs"
  by (induction xs) auto

lemma map_absent: "k \<notin> f ` set xs \<Longrightarrow> map (\<lambda>m. if f m = k then g m else m) xs = xs"
  by (induction xs) auto

text \<open>
  C6, as stated: every management operation that references a missing entity fails with
  a not-found error and never succeeds as a no-op. On a service with one agent and one
  message, \<^verbatim>\<open>deleteMinion\<close> with an unknown id, and \<^verbatim>\<open>deleteMessage\<close> and
  \<^verbatim>\<open>editMessage\<close> with an unknown message id, resolve and leave the service as it was.
\<close>

theorem missing_entity_counterexample:
  "''minion-404'' \<notin> minion_id ` set (minionConfigs oneOfEach)
   \<and> deleteMinion ''minion-404'' oneOfEach = Inr oneOfEach
   \<and> ''msg-404'' \<notin> msg_id ` set (messagesOf oneOfEach ''general'')
   \<and> deleteMessage ''general'' ''msg-404'' oneOfEach = Inr oneOfEach
   \<and> editMessage ''general'' ''msg-404'' ''edited'' oneOfEach = Inr oneOfEach"
  by (simp add: deleteMinion_def deleteMessage_def editMessage_def messagesOf_def oneOfEach_def
      demoMinion_def userMessage_def)

text \<open>
  C6, amended. \<^verbatim>\<open>updateMinion\<close> and \<^verbatim>\<open>updateChannel\<close> with an unknown id reject with
  their not-found error. \<^verbatim>\<open>deleteMinion\<close> with an unknown id resolves with the service
  unchanged (the guard \<^verbatim>\<open>if (!minionToDelete) return Promise.resolve()\<close>).
  \<^verbatim>\<open>deleteMessage\<close> and \<^verbatim>\<open>editMessage\<close> with an unknown message id resolve; the
  channel's list keeps its messages (a channel with no list gets the empty list), and
  the service is unchanged when the channel has a list.
\<close>

theorem missing_entity_outcomes:
  "(minion_id updatedConfig \<notin> minion_id ` set (minionConfigs s) \<longrightarrow>
      updateMinion updatedConfig s = Inl (Error ''Minion not found for update.''))
   \<and> (payload_id updatedChannelData \<notin> channel_id ` set (channels s) \<longrightarrow>
      updateChannel updatedChannelData s = Inl (Error ''Channel not found for update.''))
   \<and> (mid \<notin> minion_id ` set (minionConfigs s) \<longrightarrow> deleteMinion mid s = Inr s)
   \<and> (messageId \<notin> msg_id ` set (messagesOf s cid) \<longrightarrow>
      deleteMessage cid messageId s = Inr (s\<lparr>messages := (messages s)(cid \<mapsto> messagesOf s cid)\<rparr>)
      \<and> editMessage cid messageId newContent s = Inr (s\<lparr>messages := (messages s)(cid \<mapsto> messagesOf s cid)\<rparr>))
   \<and> (messageId \<notin> msg_id ` set (messagesOf s cid) \<and> messages s cid \<noteq> None \<longrightarrow>
      deleteMessage cid messageId s = Inr s \<and> editMessage cid messageId newContent s = Inr s)"
proof (intro conjI impI)
  assume "minion_id updatedConfig \<notin> minion_id ` set (minionConfigs s)"
  then have "findIndex (\<lambda>m. minion_id m = minion_id updatedConfig) (minionConfigs s) = None"
    by (rule findIndex_absent)
  then show "updateMinion updatedConfig s = Inl (Error ''Minion not found for update.'')"
    by (simp add: updateMinion_def)
next
  assume "payload_id updatedChannelData \<notin> channel_id ` set (channels s)"
  then have "findIndex (\<lambda>c. channel_id c = payload_id updatedChannelData) (channels s) = None"
    by (rule findIndex_absent)
  then show "updateChannel updatedChannelData s = Inl (Error ''Channel not found for update.'')"
    by (simp add: updateChannel_def)
next
  assume "mid \<notin> minion_id ` set (minionConfigs s)"
  then have "find (\<lambda>m. minion_id m = mid) (minionConfigs s) = None"
    by (rule find_absent)
  then show "deleteMinion mid s = Inr s"
    by (simp add: deleteMinion_def)
next
  assume a: "messageId \<notin> msg_id ` set (messagesOf s cid)"
  show "deleteMessage cid messageId s = Inr (s\<lparr>messages := (messages s)(cid \<mapsto> messagesOf s cid)\<rparr>)"
    by (simp add: deleteMessage_def filter_absent [OF a])
  show "editMessage cid messageId newContent s = Inr (s\<lparr>messages := (messages s)(cid \<mapsto> messagesOf s cid)\<rparr>)"
    by (simp add: editMessage_def map_absent [OF a])
next
  assume a: "messageId \<notin> msg_id ` set (messagesOf s cid) \<and> messages s cid \<noteq> None"
  then obtain ms where ms: "messages s cid = Some ms" by auto
  then have same: "(messages s)(cid \<mapsto> messagesOf s cid) = messages s"
    by (auto simp: messagesOf_def)
  from a have absent: "messageId \<notin> msg_id ` set (messagesOf s cid)" by simp
  show "deleteMessage cid messageId s = Inr s"
    by (simp add: deleteMessage_def filter_absent [OF absent] same)
  show "editMessage cid messageId newContent s = Inr s"
    by (simp add: editMessage_def map_absent [OF absent] same)
qed

theorem missing_entity_outcomes_witness:
  "minion_id (demoMinion ''minion-404'' ''Ghost'' None) \<notin> minion_id ` set (minionConfigs oneOfEach)
   \<and> updateMinion (demoMinion ''minion-404'' ''Ghost'' None) oneOfEach = Inl (Error ''Minion not found for update.'')
   \<and> payload_id (demoPayload ''channel-404'') \<notin> channel_id ` set (channels oneOfEach)
   \<and> updateChannel (demoPayload ''channel-404'') oneOfEach = Inl (Error ''Channel not found for update.'')
   \<and> ''minion-404'' \<notin> minion_id ` set (minionConfigs oneOfEach)
   \<and> deleteMinion ''minion-404'' oneOfEach = Inr oneOfEach
   \<and> ''msg-404'' \<notin> msg_id ` set (messagesOf oneOfEach ''general'')
   \<and> messages oneOfEach ''general'' \<noteq> None
   \<and> deleteMessage ''general'' ''msg-404'' oneOfEach = Inr oneOfEach
   \<and> editMessage ''general'' ''msg-404'' ''edited'' oneOfEach = Inr oneOfEach"
proof -
  have h1: "minion_id (demoMinion ''minion-404'' ''Ghost'' None) \<notin> minion_id ` set (minionConfigs oneOfEach)"
    and h2: "payload_id (demoPayload ''channel-404'') \<notin> channel_id ` set (channels oneOfEach)"
    and h3: "''minion-404'' \<notin> minion_id ` set (minionConfigs oneOfEach)"
    and h4: "''msg-404'' \<notin> msg_id ` set (messagesOf oneOfEach ''general'')"
    and h5: "messages oneOfEach ''general'' \<noteq> None"
    by (simp_all add: oneOfEach_def demoMinion_def demoPayload_def demoChannel_def userMessage_def messagesOf_def)
  show ?thesis
    using missing_entity_outcomes [of "demoMinion ''minion-404'' ''Ghost'' None" oneOfEach "demoPayload ''channel-404''"
        "''minion-404''" "''msg-404''" "''general''" "''edited''"] h1 h2 h3 h4 h5
    by blast
qed

section \<open>Loading a stored value\<close>

text \<open>
  A parser for one concrete type \<^verbatim>\<open>T = boolean\<close>, and a store without a quota, on which
  the theorems are instantiated.
\<close>

definition parseBoolean :: "string \<Rightarrow> bool option" where
  "parseBoolean text = (if trim text = ''true'' then Some True else if trim text = ''false'' then Some False else None)"

definition unlimited :: "localStorage \<Rightarrow> bool" where
  "unlimited store = True"

definition flagStore :: "string \<Rightarrow> localStorage" where
  "flagStore saved = [''flag'' \<mapsto> saved]"

lemma corruptedKey_differs: "corruptedKey k now \<noteq> k"
  by (simp add: corruptedKey_def)

text \<open>
  C8, as stated: a stored value that is present but unparseable is copied to a
  time-stamped side key, the original entry is removed and the default is returned. The
  stored text \<^verbatim>\<open>undefined\<close> is present and is not JSON, and the guard
  \<^verbatim>\<open>saved === 'undefined'\<close> returns the default for it with the store untouched: no
  side key is written and the entry stays.
\<close>

theorem getStoredData_undefined_counterexample:
  "flagStore ''undefined'' ''flag'' = Some ''undefined''
   \<and> parseBoolean ''undefined'' = None
   \<and> getStoredData parseBoolean unlimited 1700 (flagStore ''undefined'') ''flag'' False = Inr (False, flagStore ''undefined'')
   \<and> flagStore ''undefined'' (corruptedKey ''flag'' 1700) = None"
  by (simp add: getStoredData_def flagStore_def parseBoolean_def trim_def isWhiteSpace_def corruptedKey_def)

text \<open>
  C8, amended. An absent key and the stored text \<^verbatim>\<open>undefined\<close> give the default and
  leave the store as it is. A stored text other than \<^verbatim>\<open>undefined\<close> that parses gives
  the parsed value and leaves the store as it is. A stored text other than
  \<^verbatim>\<open>undefined\<close> that does not parse, when the store accepts the write of the side key,
  gives the default; the store then holds the raw text under the key followed by
  \<^verbatim>\<open>_corrupted_\<close> and the clock reading, has no entry under the original key and is
  unchanged elsewhere.
\<close>

theorem getStoredData_outcomes:
  "(store k = None \<longrightarrow> getStoredData parse fits now store k defaultValue = Inr (defaultValue, store))
   \<and> (store k = Some ''undefined'' \<longrightarrow> getStoredData parse fits now store k defaultValue = Inr (defaultValue, store))
   \<and> (store k = Some saved \<and> saved \<noteq> ''undefined'' \<and> parse saved = Some v \<longrightarrow>
        getStoredData parse fits now store k defaultValue = Inr (v, store))
   \<and> (store k = Some saved \<and> saved \<noteq> ''undefined'' \<and> parse saved = None
        \<and> fits (store(corruptedKey k now \<mapsto> saved)) \<longrightarrow>
        (\<exists>store'. getStoredData parse fits now store k defaultValue = Inr (defaultValue, store')
           \<and> store' (corruptedKey k now) = Some saved
           \<and> store' k = None
           \<and> (\<forall>other. other \<noteq> k \<and> other \<noteq> corruptedKey k now \<longrightarrow> store' other = store other)))"
  using corruptedKey_differs [of k now]
  by (auto simp: getStoredData_def setItem_def removeItem_def)

theorem getStoredData_outcomes_witness:
  "flagStore ''true'' ''flag'' = Some ''true'' \<and> ''true'' \<noteq> ''undefined'' \<and> parseBoolean ''true'' = Some True
   \<and> getStoredData parseBoolean unlimited 1700 (flagStore ''true'') ''flag'' False = Inr (True, flagStore ''true'')
   \<and> flagStore ''{tru'' ''flag'' = Some ''{tru'' \<and> ''{tru'' \<noteq> ''undefined'' \<and> parseBoolean ''{tru'' = None
   \<and> unlimited ((flagStore ''{tru'')(corruptedKey ''flag'' 1700 \<mapsto> ''{tru''))
   \<and> (\<exists>store'. getStoredData parseBoolean unlimited 1700 (flagStore ''{tru'') ''flag'' False = Inr (False, store')
         \<and> store' ''flag_corrupted_1700'' = Some ''{tru'' \<and> store' ''flag'' = None)
   \<and> flagStore ''undefined'' ''flag'' = Some ''undefined''
   \<and> getStoredData parseBoolean unlimited 1700 (flagStore ''undefined'') ''flag'' False = Inr (False, flagStore ''undefined'')
   \<and> flagStore ''true'' ''other'' = None
   \<and> getStoredData parseBoolean unlimited 1700 (flagStore ''true'') ''other'' False = Inr (False, flagStore ''true'')"
proof -
  have k: "corruptedKey ''flag'' 1700 = ''flag_corrupted_1700''"
    by (simp add: corruptedKey_def show_nat.simps digit_char_def)
  have a: "flagStore ''true'' ''flag'' = Some ''true''" "parseBoolean ''true'' = Some True"
    and b: "flagStore ''{tru'' ''flag'' = Some ''{tru''" "parseBoolean ''{tru'' = None"
      "unlimited ((flagStore ''{tru'')(corruptedKey ''flag'' 1700 \<mapsto> ''{tru''))"
    and c: "flagStore ''undefined'' ''flag'' = Some ''undefined''"
    and d: "flagStore ''true'' ''other'' = None"
    by (simp_all add: flagStore_def parseBoolean_def trim_def isWhiteSpace_def unlimited_def)
  have t1: "getStoredData parseBoolean unlimited 1700 (flagStore ''true'') ''flag'' False = Inr (True, flagStore ''true'')"
    using getStoredData_outcomes [of "flagStore ''true''" "''flag''" parseBoolean unlimited 1700 False "''true''" True] a
    by simp
  have t2: "\<exists>store'. getStoredData parseBoolean unlimited 1700 (flagStore ''{tru'') ''flag'' False = Inr (False, store')
         \<and> store' ''flag_corrupted_1700'' = Some ''{tru'' \<and> store' ''flag'' = None"
    using getStoredData_outcomes [of "flagStore ''{tru''" "''flag''" parseBoolean unlimited 1700 False "''{tru''" True] b
    unfolding k by auto
  have t3: "getStoredData parseBoolean unlimited 1700 (flagStore ''undefined'') ''flag'' False = Inr (False, flagStore ''undefined'')"
    using getStoredData_outcomes [of "flagStore ''undefined''" "''flag''" parseBoolean unlimited 1700 False "''true''" True] c
    by simp
  have t4: "getStoredData parseBoolean unlimited 1700 (flagStore ''true'') ''other'' False = Inr (False, flagStore ''true'')"
    using getStoredData_outcomes [of "flagStore ''true''" "''other''" parseBoolean unlimited 1700 False "''true''" True] d
    by simp
  show ?thesis using a b c d t1 t2 t3 t4 by simp
qed

section \<open>What a batch leaves in the trace\<close>

text \<open>
  The observers of a trace used by the theorems: the messages handed to
  \<^verbatim>\<open>onMinionResponse\<close>, the messages handed to \<^verbatim>\<open>onSystemMessage\<close>, and the prompts of
  the streamed and of the structured model calls, each in trace order.
\<close>

fun responses :: "Event list \<Rightarrow> ChatMessageData list" where
  "responses [] = []"
| "responses (OnMinionResponse m # evs) = m # responses evs"
| "responses (e # evs) = responses evs"

fun systemNotices :: "Event list \<Rightarrow> ChatMessageData list" where
  "systemNotices [] = []"
| "systemNotices (OnSystemMessage m # evs) = m # systemNotices evs"
| "systemNotices (e # evs) = systemNotices evs"

fun streamPrompts :: "Event list \<Rightarrow> ResponsePrompt list" where
  "streamPrompts [] = []"
| "streamPrompts (CallGeminiAPIStream prompt model temp apiKey # evs) = prompt # streamPrompts evs"
| "streamPrompts (e # evs) = streamPrompts evs"

fun jsonPrompts :: "Event list \<Rightarrow> PerceptionPrompt list" where
  "jsonPrompts [] = []"
| "jsonPrompts (CallGeminiApiForJson prompt model temp apiKey # evs) = prompt # jsonPrompts evs"
| "jsonPrompts (e # evs) = jsonPrompts evs"

lemma responses_append [simp]: "responses (xs @ ys) = responses xs @ responses ys"
  by (induction xs rule: responses.induct) simp_all

lemma systemNotices_append [simp]: "systemNotices (xs @ ys) = systemNotices xs @ systemNotices ys"
  by (induction xs rule: systemNotices.induct) simp_all

lemma streamPrompts_append [simp]: "streamPrompts (xs @ ys) = streamPrompts xs @ streamPrompts ys"
  by (induction xs rule: streamPrompts.induct) simp_all

lemma jsonPrompts_append [simp]: "jsonPrompts (xs @ ys) = jsonPrompts xs @ jsonPrompts ys"
  by (induction xs rule: jsonPrompts.induct) simp_all

section \<open>Response stage: what one speaker's turn does\<close>

lemma chunks_observed [simp]:
  "responses (map (OnMinionResponseChunk cid mid) chunks) = []"
  "systemNotices (map (OnMinionResponseChunk cid mid) chunks) = []"
  "streamPrompts (map (OnMinionResponseChunk cid mid) chunks) = []"
  "jsonPrompts (map (OnMinionResponseChunk cid mid) chunks) = []"
  by (induction chunks) simp_all

lemma fold_chunks:
  "fold (streamHandler env cid mid minion plan) (map (\<lambda>chunkText. OnStreamChunk chunkText False) chunks) (acc, run) =
     (acc @ concat chunks, run\<lparr>events := events run @ map (OnMinionResponseChunk cid mid) chunks\<rparr>)"
  by (induction chunks arbitrary: acc run) (simp_all add: emit_def)

lemma selectApiKey_frame:
  assumes "selectApiKey s who = Inr (keyInfo, s')"
  shows "messages s' = messages s" "minionConfigs s' = minionConfigs s" "channels s' = channels s" "apiKeys s' = apiKeys s"
  using assms by (auto simp: selectApiKey_def split: option.splits if_splits)

lemma updateMinionState_frame [simp]:
  "messages (updateMinionState i p s) = messages s"
  "channels (updateMinionState i p s) = channels s"
  "apiKeys (updateMinionState i p s) = apiKeys s"
  "apiKeyRoundRobinIndex (updateMinionState i p s) = apiKeyRoundRobinIndex s"
  by (simp_all add: updateMinionState_def split: option.splits)

lemma messagesOf_updateMinionState [simp]: "messagesOf (updateMinionState i p s) cid = messagesOf s cid"
  by (simp add: messagesOf_def)

lemma errorFinalize_effect:
  "errorFinalize env cid mid minion text run =
     (let errorMsg = (aiMessage mid cid (minion_name minion) text (clock env (clockReads run)))
                       \<lparr>isError := Some True, isProcessing := Some False\<rparr>
      in run\<lparr>service := (service run)\<lparr>messages := (messages (service run))(cid \<mapsto>
                 map (\<lambda>m. if msg_id m = mid then errorMsg else m) (messagesOf (service run) cid))\<rparr>,
             events := events run @ [OnMinionResponse errorMsg],
             clockReads := Suc (clockReads run)\<rparr>)"
  by (simp add: errorFinalize_def Date_now_def emit_def setMessages_def Let_def messagesOf_def)

lemma finalize_effect:
  "finalize env cid mid minion plan acc run =
     (let finalMessage = (aiMessage mid cid (minion_name minion) (trim acc) (clock env (clockReads run)))
                       \<lparr>internalDiary := Some plan, isProcessing := Some False\<rparr>;
          existingMessages = messagesOf (service run) cid
      in run\<lparr>service := (updateMinionState (minion_id minion) plan (service run))\<lparr>messages := (messages (service run))(cid \<mapsto>
                 (case findIndex (\<lambda>m. msg_id m = mid) existingMessages of
                    Some msgIndex \<Rightarrow> existingMessages[msgIndex := finalMessage]
                  | None \<Rightarrow> existingMessages @ [finalMessage]))\<rparr>,
             events := events run @ [OnMinionResponse finalMessage],
             clockReads := Suc (clockReads run)\<rparr>)"
  by (simp add: finalize_def Date_now_def emit_def setMessages_def Let_def split: option.splits)


lemma runStreamingResponse_no_key:
  "sel_key keyInfo = [] \<Longrightarrow>
   runStreamingResponse env cid mid minion plan prompt keyInfo run =
     errorFinalize env cid mid minion ''Error: No API key available for response generation.'' run"
  by (simp add: runStreamingResponse_def)

lemma runStreamingResponse_throws:
  "sel_key keyInfo \<noteq> [] \<Longrightarrow> generateContentStream env (streamCalls run) = StreamThrows chunks errorMessage \<Longrightarrow>
   runStreamingResponse env cid mid minion plan prompt keyInfo run =
     errorFinalize env cid mid minion (''Error: '' @ ''Gemini API Stream Error: '' @ errorMessage)
       (run\<lparr>streamCalls := Suc (streamCalls run),
             events := events run @ CallGeminiAPIStream prompt (model_id minion) (temperature minion) (sel_key keyInfo) #
                 map (OnMinionResponseChunk cid mid) chunks\<rparr>)"
  by (simp add: runStreamingResponse_def callGeminiAPIStream_def emit_def Let_def fold_chunks)

lemma runStreamingResponse_completes:
  "sel_key keyInfo \<noteq> [] \<Longrightarrow> generateContentStream env (streamCalls run) = StreamCompletes chunks \<Longrightarrow>
   runStreamingResponse env cid mid minion plan prompt keyInfo run =
     finalize env cid mid minion plan (concat chunks)
       (run\<lparr>streamCalls := Suc (streamCalls run),
             events := events run @ CallGeminiAPIStream prompt (model_id minion) (temperature minion) (sel_key keyInfo) #
                 map (OnMinionResponseChunk cid mid) chunks\<rparr>)"
  by (simp add: runStreamingResponse_def callGeminiAPIStream_def emit_def Let_def fold_chunks)


text \<open>The id \<^verbatim>\<open>`ai-${minion.id}-${Date.now()}`\<close> that a turn starting at \<open>run\<close> gives its message.\<close>

definition tempIdOf :: "Env \<Rightarrow> MinionConfig \<Rightarrow> Run \<Rightarrow> string" where
  "tempIdOf env minion run = ''ai-'' @ minion_id minion @ ''-'' @ show_nat (clock env (clockReads run))"

lemma find_fresh_appended:
  "k \<notin> msg_id ` set xs \<Longrightarrow> msg_id y = k \<Longrightarrow> find (\<lambda>m. msg_id m = k) (xs @ [y]) = Some y"
  by (induction xs) auto

lemma speakerTurn_selects:
  assumes "speakerTurn env cid (minion, plan) hist run = Inr (hist', run')"
  shows "\<exists>keyInfo s1. selectApiKey (service run) (Some minion) = Inr (keyInfo, s1)"
  using assms
  by (cases "selectApiKey (service run) (Some minion)")
     (auto simp: speakerTurn_def Date_now_def emit_def Let_def split_def)

lemma speakerTurn_error_case:
  assumes turn: "speakerTurn env cid (minion, plan) hist run = Inr (hist', run')"
    and sel: "selectApiKey (service run) (Some minion) = Inr (keyInfo, s1)"
    and fresh: "tempIdOf env minion run \<notin> msg_id ` set (messagesOf (service run) cid)"
    and err: "sel_key keyInfo = [] \<or> generateContentStream env (streamCalls run) = StreamThrows chunks e"
  shows "\<exists>evs placeholder fin.
      events run' = events run @ evs
    \<and> responses evs = [placeholder, fin]
    \<and> placeholder = (aiMessage (tempIdOf env minion run) cid (minion_name minion) [] (clock env (Suc (clockReads run))))
                      \<lparr>isProcessing := Some True\<rparr>
    \<and> msg_id fin = tempIdOf env minion run \<and> senderName fin = minion_name minion \<and> senderType fin = AI
    \<and> channelId fin = cid \<and> isProcessing fin = Some False \<and> isError fin = Some True \<and> internalDiary fin = None
    \<and> messagesOf (service run') cid = messagesOf (service run) cid
    \<and> (\<forall>c. c \<noteq> cid \<longrightarrow> messages (service run') c = messages (service run) c)
    \<and> minionConfigs (service run') = minionConfigs (service run)
    \<and> hist' = hist"
proof -
  note fr = selectApiKey_frame [OF sel]
  have m1: "messagesOf s1 cid = messagesOf (service run) cid"
    by (simp add: messagesOf_def fr)
  have fresh1: "tempIdOf env minion run \<notin> msg_id ` set (messagesOf s1 cid)"
    using fresh by (simp add: m1)
  show ?thesis
  proof (cases "sel_key keyInfo = []")
    case True
    show ?thesis
      using turn fresh1 m1
      by (auto simp: speakerTurn_def sel True runStreamingResponse_no_key errorFinalize_effect
          createApiKeyLogMessage_def Date_now_def emit_def Let_def split_def tempIdOf_def
          map_absent find_absent messagesOf_def fr aiMessage_def)
  next
    case False
    with err have thr: "generateContentStream env (streamCalls run) = StreamThrows chunks e" by simp
    show ?thesis
      using turn fresh1 m1
      by (auto simp: speakerTurn_def sel False runStreamingResponse_throws thr errorFinalize_effect
          createApiKeyLogMessage_def Date_now_def emit_def Let_def split_def tempIdOf_def
          map_absent find_absent messagesOf_def fr aiMessage_def)
  qed
qed


lemma speakerTurn_completion_case:
  assumes turn: "speakerTurn env cid (minion, plan) hist run = Inr (hist', run')"
    and sel: "selectApiKey (service run) (Some minion) = Inr (keyInfo, s1)"
    and fresh: "tempIdOf env minion run \<notin> msg_id ` set (messagesOf (service run) cid)"
    and key: "sel_key keyInfo \<noteq> []"
    and compl: "generateContentStream env (streamCalls run) = StreamCompletes chunks"
  shows "\<exists>evs placeholder fin.
      events run' = events run @ evs
    \<and> responses evs = [placeholder, fin]
    \<and> placeholder = (aiMessage (tempIdOf env minion run) cid (minion_name minion) [] (clock env (Suc (clockReads run))))
                      \<lparr>isProcessing := Some True\<rparr>
    \<and> msg_id fin = tempIdOf env minion run \<and> senderName fin = minion_name minion \<and> senderType fin = AI
    \<and> channelId fin = cid \<and> isProcessing fin = Some False \<and> isError fin = None \<and> internalDiary fin = Some plan
    \<and> content fin = trim (concat chunks)
    \<and> messagesOf (service run') cid = messagesOf (service run) cid @ [fin]
    \<and> (\<forall>c. c \<noteq> cid \<longrightarrow> messages (service run') c = messages (service run) c)
    \<and> minionConfigs (service run') = minionConfigs (updateMinionState (minion_id minion) plan (service run))
    \<and> hist' = hist @ [CHR 0x0A] @ ''[MINION '' @ minion_name minion @ '']: '' @ content fin"
proof -
  note fr = selectApiKey_frame [OF sel]
  have m1: "messagesOf s1 cid = messagesOf (service run) cid"
    by (simp add: messagesOf_def fr)
  have fresh1: "tempIdOf env minion run \<notin> msg_id ` set (messagesOf s1 cid)"
    using fresh by (simp add: m1)
  have upd: "minionConfigs (updateMinionState (minion_id minion) plan s1) =
             minionConfigs (updateMinionState (minion_id minion) plan (service run))"
    by (simp add: updateMinionState_def fr split: option.splits)
  show ?thesis
    using turn fresh1 m1 upd findIndex_absent [OF fresh1] find_fresh_appended [OF fresh1]
    by (auto simp: speakerTurn_def sel key runStreamingResponse_completes compl finalize_effect
        createApiKeyLogMessage_def Date_now_def emit_def Let_def split_def tempIdOf_def
        messagesOf_def fr aiMessage_def)
qed





definition placeholderIds :: "Event list \<Rightarrow> string list" where
  "placeholderIds evs = map msg_id (filter (\<lambda>m. isProcessing m = Some True) (responses evs))"


definition newEvents :: "Run \<Rightarrow> Run \<Rightarrow> Event list" where
  "newEvents run run' = drop (length (events run)) (events run')"

lemma newEvents_append: "events run' = events run @ evs \<Longrightarrow> newEvents run run' = evs"
  by (simp add: newEvents_def)

lemma speakerTurn_frame:
  assumes turn: "speakerTurn env cid (minion, plan) hist run = Inr (hist', run')"
  shows "(\<forall>c. c \<noteq> cid \<longrightarrow> messages (service run') c = messages (service run) c)
    \<and> channels (service run') = channels (service run)
    \<and> apiKeys (service run') = apiKeys (service run)
    \<and> (minionConfigs (service run') = minionConfigs (service run) \<or>
        minionConfigs (service run') = minionConfigs (updateMinionState (minion_id minion) plan (service run)))"
proof -
  obtain keyInfo s1 where sel: "selectApiKey (service run) (Some minion) = Inr (keyInfo, s1)"
    using speakerTurn_selects [OF turn] by blast
  note fr = selectApiKey_frame [OF sel]
  have upd: "minionConfigs (updateMinionState (minion_id minion) plan s1) =
             minionConfigs (updateMinionState (minion_id minion) plan (service run))"
    by (simp add: updateMinionState_def fr split: option.splits)
  show ?thesis
  proof (cases "sel_key keyInfo = []")
    case True
    show ?thesis
      using turn
      by (auto simp: speakerTurn_def sel True runStreamingResponse_no_key errorFinalize_effect
          createApiKeyLogMessage_def Date_now_def emit_def Let_def split_def fr)
  next
    case False
    show ?thesis
    proof (cases "generateContentStream env (streamCalls run)")
      case (StreamCompletes chunks)
      show ?thesis
        using turn upd
        by (auto simp: speakerTurn_def sel False runStreamingResponse_completes StreamCompletes finalize_effect
            createApiKeyLogMessage_def Date_now_def emit_def Let_def split_def fr)
    next
      case (StreamThrows chunks e)
      show ?thesis
        using turn
        by (auto simp: speakerTurn_def sel False runStreamingResponse_throws StreamThrows errorFinalize_effect
            createApiKeyLogMessage_def Date_now_def emit_def Let_def split_def fr)
    qed
  qed
qed



section \<open>Response stage: the loop over the speakers\<close>


lemma placeholderIds_append [simp]: "placeholderIds (xs @ ys) = placeholderIds xs @ placeholderIds ys"
  by (simp add: placeholderIds_def)

lemma respondAll_Cons:
  assumes "respondAll env cid (speaker # rest) hist run = Inr run'"
  shows "\<exists>h1 run1. speakerTurn env cid speaker hist run = Inr (h1, run1) \<and> respondAll env cid rest h1 run1 = Inr run'"
  using assms by (auto split: sum.splits)



lemma respondAll_frame:
  assumes "respondAll env cid speakers hist run = Inr run'"
  shows "(\<forall>c. c \<noteq> cid \<longrightarrow> messages (service run') c = messages (service run) c)
     \<and> channels (service run') = channels (service run)
     \<and> apiKeys (service run') = apiKeys (service run)"
  using assms
proof (induction speakers arbitrary: hist run)
  case Nil
  then show ?case by simp
next
  case (Cons speaker rest)
  obtain minion plan where sp: "speaker = (minion, plan)" by (cases speaker)
  obtain h1 run1 where turn: "speakerTurn env cid (minion, plan) hist run = Inr (h1, run1)"
    and rest: "respondAll env cid rest h1 run1 = Inr run'"
    using respondAll_Cons [OF Cons.prems] sp by blast
  show ?case using speakerTurn_frame [OF turn] Cons.IH [OF rest] by simp
qed




section \<open>Turn scheduler of the human-triggered batch\<close>

text \<open>
  The SPEAK set of a batch: the agents whose perception result carries no error and a
  plan whose action is \<open>SPEAK\<close>, in the order of the perception results.
\<close>

fun userSpeakers :: "PerceptionResult list \<Rightarrow> Speaker list" where
  "userSpeakers [] = []"
| "userSpeakers (r # rs) =
     (case (if truthy (res_error r) then None else res_plan r) of
        None \<Rightarrow> userSpeakers rs
      | Some plan \<Rightarrow> if action plan = SPEAK then (res_minion r, plan) # userSpeakers rs else userSpeakers rs)"

lemma silent_notice_differs: "name @ '' chose to remain silent.'' \<noteq> allSilentText"
proof
  assume "name @ '' chose to remain silent.'' = allSilentText"
  then have "rev (name @ '' chose to remain silent.'') = rev allSilentText" by simp
  then show False by (simp add: allSilentText_def)
qed

lemma processResult_effect:
  "\<exists>run' evs. processResult env cid r (speakers, run) = (speakers @ userSpeakers [r], run')
     \<and> events run' = events run @ evs
     \<and> responses evs = [] \<and> streamPrompts evs = [] \<and> jsonPrompts evs = []
     \<and> (\<forall>m \<in> set (systemNotices evs). content m \<noteq> allSilentText)
     \<and> length (systemNotices evs) + length (userSpeakers [r]) = 1
     \<and> messages (service run') = messages (service run)
     \<and> channels (service run') = channels (service run)
     \<and> apiKeys (service run') = apiKeys (service run)"
  by (auto simp: processResult_def Date_now_def emit_def Let_def split_def systemMessage_def
      silent_notice_differs allSilentText_def split: option.splits)

lemma processResults_effect:
  "\<exists>run' evs. fold (processResult env cid) rs (speakers, run) = (speakers @ userSpeakers rs, run')
     \<and> events run' = events run @ evs
     \<and> responses evs = [] \<and> streamPrompts evs = [] \<and> jsonPrompts evs = []
     \<and> (\<forall>m \<in> set (systemNotices evs). content m \<noteq> allSilentText)
     \<and> length (systemNotices evs) + length (userSpeakers rs) = length rs
     \<and> messages (service run') = messages (service run)
     \<and> channels (service run') = channels (service run)
     \<and> apiKeys (service run') = apiKeys (service run)"
proof (induction rs arbitrary: speakers run)
  case Nil
  show ?case by simp
next
  case (Cons r rs)
  obtain run1 e1 where s1: "processResult env cid r (speakers, run) = (speakers @ userSpeakers [r], run1)"
    and e1: "events run1 = events run @ e1"
      "responses e1 = []" "streamPrompts e1 = []" "jsonPrompts e1 = []"
      "\<forall>m \<in> set (systemNotices e1). content m \<noteq> allSilentText"
      "length (systemNotices e1) + length (userSpeakers [r]) = 1"
    and f1: "messages (service run1) = messages (service run)" "channels (service run1) = channels (service run)"
      "apiKeys (service run1) = apiKeys (service run)"
    using processResult_effect [of env cid r speakers run] by blast
  obtain run2 e2 where s2: "fold (processResult env cid) rs (speakers @ userSpeakers [r], run1) =
        ((speakers @ userSpeakers [r]) @ userSpeakers rs, run2)"
    and e2: "events run2 = events run1 @ e2"
      "responses e2 = []" "streamPrompts e2 = []" "jsonPrompts e2 = []"
      "\<forall>m \<in> set (systemNotices e2). content m \<noteq> allSilentText"
      "length (systemNotices e2) + length (userSpeakers rs) = length rs"
    and f2: "messages (service run2) = messages (service run1)" "channels (service run2) = channels (service run1)"
      "apiKeys (service run2) = apiKeys (service run1)"
    using Cons.IH [of "speakers @ userSpeakers [r]" run1] by blast
  have sp: "(speakers @ userSpeakers [r]) @ userSpeakers rs = speakers @ userSpeakers (r # rs)"
    by (simp split: option.splits)
  have "fold (processResult env cid) (r # rs) (speakers, run) = (speakers @ userSpeakers (r # rs), run2)
     \<and> events run2 = events run @ (e1 @ e2)
     \<and> responses (e1 @ e2) = [] \<and> streamPrompts (e1 @ e2) = [] \<and> jsonPrompts (e1 @ e2) = []
     \<and> (\<forall>m \<in> set (systemNotices (e1 @ e2)). content m \<noteq> allSilentText)
     \<and> length (systemNotices (e1 @ e2)) + length (userSpeakers (r # rs)) = length (r # rs)
     \<and> messages (service run2) = messages (service run)
     \<and> channels (service run2) = channels (service run)
     \<and> apiKeys (service run2) = apiKeys (service run)"
    using s1 s2 sp e1 e2 f1 f2 by (auto split: option.splits if_splits)
  then show ?case by (intro exI)
qed

lemma markSilentIdle_effect:
  "\<exists>evs. fold (markSilentIdle speakers) ms run = run\<lparr>events := events run @ evs\<rparr>
     \<and> responses evs = [] \<and> streamPrompts evs = [] \<and> jsonPrompts evs = [] \<and> systemNotices evs = []"
proof (induction ms arbitrary: run)
  case Nil
  show ?case by (rule exI [of _ "[]"]) simp
next
  case (Cons m ms)
  obtain e1 where e1: "markSilentIdle speakers m run = run\<lparr>events := events run @ e1\<rparr>"
     "responses e1 = []" "streamPrompts e1 = []" "jsonPrompts e1 = []" "systemNotices e1 = []"
  proof (cases "list_ex (\<lambda>speaker. minion_id (fst speaker) = minion_id m) speakers")
    case True
    then have "markSilentIdle speakers m run = run\<lparr>events := events run @ []\<rparr>"
      by (simp add: markSilentIdle_def)
    then show ?thesis using that [of "[]"] by simp
  next
    case False
    then have "markSilentIdle speakers m run = run\<lparr>events := events run @ [OnMinionProcessingUpdate (minion_name m) False]\<rparr>"
      by (simp add: markSilentIdle_def emit_def)
    then show ?thesis using that [of "[OnMinionProcessingUpdate (minion_name m) False]"] by simp
  qed
  obtain e2 where e2: "fold (markSilentIdle speakers) ms (run\<lparr>events := events run @ e1\<rparr>) =
        run\<lparr>events := events run @ e1\<rparr>\<lparr>events := events (run\<lparr>events := events run @ e1\<rparr>) @ e2\<rparr>"
     "responses e2 = []" "streamPrompts e2 = []" "jsonPrompts e2 = []" "systemNotices e2 = []"
    using Cons.IH [of "run\<lparr>events := events run @ e1\<rparr>"] by blast
  have "fold (markSilentIdle speakers) (m # ms) run = run\<lparr>events := events run @ (e1 @ e2)\<rparr>
     \<and> responses (e1 @ e2) = [] \<and> streamPrompts (e1 @ e2) = [] \<and> jsonPrompts (e1 @ e2) = []
     \<and> systemNotices (e1 @ e2) = []"
    using e1 e2 by simp
  then show ?case by (intro exI)
qed


lemma scheduleUser_unfold:
  "\<exists>run4 evs0.
        scheduleUser env cid minionsInChannel hist results run =
          respondAll env cid (sortByPredictedResponseTime (userSpeakers results)) hist run4
      \<and> events run4 = events run @ evs0
      \<and> responses evs0 = [] \<and> streamPrompts evs0 = [] \<and> jsonPrompts evs0 = []
      \<and> (\<forall>m \<in> set (systemNotices evs0). content m \<noteq> allSilentText)
      \<and> length (systemNotices evs0) + length (userSpeakers results) = length results
      \<and> messages (service run4) = messages (service run)
      \<and> channels (service run4) = channels (service run)"
proof -
  obtain run3 e1 where s1: "fold (processResult env cid) results ([], run) = ([] @ userSpeakers results, run3)"
    and e1: "events run3 = events run @ e1"
      "responses e1 = []" "streamPrompts e1 = []" "jsonPrompts e1 = []"
      "\<forall>m \<in> set (systemNotices e1). content m \<noteq> allSilentText"
      "length (systemNotices e1) + length (userSpeakers results) = length results"
    and f1: "messages (service run3) = messages (service run)" "channels (service run3) = channels (service run)"
    using processResults_effect [of env cid results "[]" run] by blast
  obtain e2 where s2: "fold (markSilentIdle (userSpeakers results)) minionsInChannel run3 = run3\<lparr>events := events run3 @ e2\<rparr>"
    and e2: "responses e2 = []" "streamPrompts e2 = []" "jsonPrompts e2 = []" "systemNotices e2 = []"
    using markSilentIdle_effect [of "userSpeakers results" minionsInChannel run3] by blast
  let ?run4 = "run3\<lparr>events := events run3 @ e2\<rparr>"
  have "scheduleUser env cid minionsInChannel hist results run =
          respondAll env cid (sortByPredictedResponseTime (userSpeakers results)) hist ?run4
      \<and> events ?run4 = events run @ (e1 @ e2)
      \<and> responses (e1 @ e2) = [] \<and> streamPrompts (e1 @ e2) = [] \<and> jsonPrompts (e1 @ e2) = []
      \<and> (\<forall>m \<in> set (systemNotices (e1 @ e2)). content m \<noteq> allSilentText)
      \<and> length (systemNotices (e1 @ e2)) + length (userSpeakers results) = length results
      \<and> messages (service ?run4) = messages (service run)
      \<and> channels (service ?run4) = channels (service run)"
    using s1 s2 e1 e2 f1 by (simp add: scheduleUser_def)
  then show ?thesis by (intro exI)
qed




text \<open>
  C9. One iteration of the speaker loop of \<^verbatim>\<open>handleUserMessage\<close>, for a message id that
  no stored message of the channel carries. The callback receives the in-progress
  placeholder, then the finalized message with the same id. The placeholder is not in
  the stored list afterwards. When no credential is available or the stream throws, the
  finalized message is an error message, it is not in the stored list, the stored list
  of the channel is what it was and the chat history handed to the next speaker is
  unchanged; otherwise the finalized message carries the plan and is appended to the
  stored list. The lists of the other channels are untouched.
\<close>

theorem speakerTurn_stores_only_completed:
  assumes turn: "speakerTurn env cid (minion, plan) hist run = Inr (hist', run')"
    and fresh: "tempIdOf env minion run \<notin> msg_id ` set (messagesOf (service run) cid)"
  shows "\<exists>keyInfo s1 placeholder fin.
      selectApiKey (service run) (Some minion) = Inr (keyInfo, s1)
    \<and> responses (newEvents run run') = [placeholder, fin]
    \<and> msg_id placeholder = tempIdOf env minion run \<and> isProcessing placeholder = Some True
    \<and> content placeholder = []
    \<and> msg_id fin = tempIdOf env minion run \<and> isProcessing fin = Some False
    \<and> placeholder \<notin> set (messagesOf (service run') cid)
    \<and> (\<forall>c. c \<noteq> cid \<longrightarrow> messages (service run') c = messages (service run) c)
    \<and> (if sel_key keyInfo = [] \<or> (\<exists>chunks e. generateContentStream env (streamCalls run) = StreamThrows chunks e)
        then isError fin = Some True
           \<and> messagesOf (service run') cid = messagesOf (service run) cid
           \<and> fin \<notin> set (messagesOf (service run') cid)
           \<and> hist' = hist
        else isError fin = None \<and> internalDiary fin = Some plan
           \<and> messagesOf (service run') cid = messagesOf (service run) cid @ [fin])"
proof -
  obtain keyInfo s1 where sel: "selectApiKey (service run) (Some minion) = Inr (keyInfo, s1)"
    using speakerTurn_selects [OF turn] by blast
  show ?thesis
  proof (cases "sel_key keyInfo = [] \<or> (\<exists>chunks e. generateContentStream env (streamCalls run) = StreamThrows chunks e)")
    case True
    then obtain chunks e where "sel_key keyInfo = [] \<or> generateContentStream env (streamCalls run) = StreamThrows chunks e"
      by blast
    from speakerTurn_error_case [OF turn sel fresh this]
    obtain evs placeholder fin where ev: "events run' = events run @ evs"
      and r: "responses evs = [placeholder, fin]"
      and ph: "placeholder = (aiMessage (tempIdOf env minion run) cid (minion_name minion) [] (clock env (Suc (clockReads run))))
                      \<lparr>isProcessing := Some True\<rparr>"
      and fin: "msg_id fin = tempIdOf env minion run" "isProcessing fin = Some False" "isError fin = Some True"
      and m: "messagesOf (service run') cid = messagesOf (service run) cid"
      and others: "\<forall>c. c \<noteq> cid \<longrightarrow> messages (service run') c = messages (service run) c"
      and h: "hist' = hist"
      by blast
    have phid: "msg_id placeholder = tempIdOf env minion run" "isProcessing placeholder = Some True" "content placeholder = []"
      by (simp_all add: ph aiMessage_def)
    have "placeholder \<notin> set (messagesOf (service run') cid)" "fin \<notin> set (messagesOf (service run') cid)"
      using fresh phid(1) fin(1) unfolding m by force+
    then show ?thesis
      using sel newEvents_append [OF ev] r phid fin m others h True by auto
  next
    case False
    then obtain chunks where k: "sel_key keyInfo \<noteq> []" "generateContentStream env (streamCalls run) = StreamCompletes chunks"
      by (cases "generateContentStream env (streamCalls run)") auto
    from speakerTurn_completion_case [OF turn sel fresh k]
    obtain evs placeholder fin where ev: "events run' = events run @ evs"
      and r: "responses evs = [placeholder, fin]"
      and ph: "placeholder = (aiMessage (tempIdOf env minion run) cid (minion_name minion) [] (clock env (Suc (clockReads run))))
                      \<lparr>isProcessing := Some True\<rparr>"
      and fin: "msg_id fin = tempIdOf env minion run" "isProcessing fin = Some False" "isError fin = None"
        "internalDiary fin = Some plan"
      and m: "messagesOf (service run') cid = messagesOf (service run) cid @ [fin]"
      and others: "\<forall>c. c \<noteq> cid \<longrightarrow> messages (service run') c = messages (service run) c"
      by blast
    have phid: "msg_id placeholder = tempIdOf env minion run" "isProcessing placeholder = Some True" "content placeholder = []"
      by (simp_all add: ph aiMessage_def)
    have "placeholder \<noteq> fin" using phid(2) fin(2) by auto
    moreover have "placeholder \<notin> set (messagesOf (service run) cid)"
      using fresh phid(1) by force
    ultimately have "placeholder \<notin> set (messagesOf (service run') cid)"
      unfolding m by simp
    then show ?thesis
      using sel newEvents_append [OF ev] r phid fin m others False by auto
  qed
qed

section \<open>A batch in which nobody speaks\<close>

lemma fold_emit:
  "fold (\<lambda>m. emit (f m)) ms run = run\<lparr>events := events run @ map f ms\<rparr>"
  by (induction ms arbitrary: run) (simp_all add: emit_def)

lemma updates_observed [simp]:
  "responses (map (\<lambda>m. OnMinionProcessingUpdate (g m) b) ms) = []"
  "systemNotices (map (\<lambda>m. OnMinionProcessingUpdate (g m) b) ms) = []"
  "streamPrompts (map (\<lambda>m. OnMinionProcessingUpdate (g m) b) ms) = []"
  "jsonPrompts (map (\<lambda>m. OnMinionProcessingUpdate (g m) b) ms) = []"
  by (induction ms) simp_all

lemma autoNotice_effect:
  "autoNotice env idPrefix cid text run =
     run\<lparr>clockReads := Suc (Suc (clockReads run)),
         events := events run @ [OnSystemMessage
           (systemMessage (idPrefix @ show_nat (clock env (clockReads run))) cid text (clock env (Suc (clockReads run))))]\<rparr>"
  by (simp add: autoNotice_def Date_now_def emit_def)

lemma userSpeakers_none_sorted: "sortByPredictedResponseTime [] = []"
  by (simp add: sortByPredictedResponseTime_def)

text \<open>
  C5, amended. With an empty SPEAK set, the autonomous batch resolves, emits exactly one
  system notice, whose text is the all-silent text, runs no response stage (no message
  callback, no streamed call) and leaves the service as it was. With an empty SPEAK set,
  the human-triggered batch resolves and runs no response stage either, but emits no
  notice with the all-silent text: it emits one system notice per perception result
  (the agent's own notice of silence or the diagnostic of its failure).
\<close>

theorem empty_speak_set_outcomes:
  "(autoSpeakers results = [] \<longrightarrow>
      (\<exists>run'. scheduleAuto env cid minionsInChannel hist results run = Inr run'
         \<and> map content (systemNotices (newEvents run run')) = [allSilentText]
         \<and> responses (newEvents run run') = [] \<and> streamPrompts (newEvents run run') = []
         \<and> service run' = service run))
   \<and> (userSpeakers results = [] \<longrightarrow>
      (\<exists>run'. scheduleUser env cid minionsInChannel hist results run = Inr run'
         \<and> allSilentText \<notin> content ` set (systemNotices (newEvents run run'))
         \<and> length (systemNotices (newEvents run run')) = length results
         \<and> responses (newEvents run run') = [] \<and> streamPrompts (newEvents run run') = []
         \<and> messages (service run') = messages (service run)))"
proof (intro conjI impI)
  assume none: "autoSpeakers results = []"
  define notice where "notice = OnSystemMessage (systemMessage (''sys-auto-silent-'' @ show_nat (clock env (clockReads run))) cid
      allSilentText (clock env (Suc (clockReads run))))"
  define updates where "updates = map (\<lambda>m. OnMinionProcessingUpdate (minion_name m) False) minionsInChannel"
  define run1 where "run1 = run\<lparr>clockReads := Suc (Suc (clockReads run)), events := events run @ updates @ [notice]\<rparr>"
  have res: "scheduleAuto env cid minionsInChannel hist results run = Inr run1"
    by (simp add: scheduleAuto_def none userSpeakers_none_sorted fold_emit autoNotice_effect
        run1_def notice_def updates_def)
  have ev: "events run1 = events run @ (updates @ [notice])"
    by (simp add: run1_def)
  have obs: "map content (systemNotices (updates @ [notice])) = [allSilentText]"
    "responses (updates @ [notice]) = []" "streamPrompts (updates @ [notice]) = []"
    by (simp_all add: updates_def notice_def systemMessage_def)
  have "scheduleAuto env cid minionsInChannel hist results run = Inr run1
         \<and> map content (systemNotices (newEvents run run1)) = [allSilentText]
         \<and> responses (newEvents run run1) = [] \<and> streamPrompts (newEvents run run1) = []
         \<and> service run1 = service run"
    unfolding newEvents_append [OF ev] using res obs by (simp add: run1_def)
  then show "\<exists>run'. scheduleAuto env cid minionsInChannel hist results run = Inr run'
         \<and> map content (systemNotices (newEvents run run')) = [allSilentText]
         \<and> responses (newEvents run run') = [] \<and> streamPrompts (newEvents run run') = []
         \<and> service run' = service run"
    by (rule exI)
next
  assume none: "userSpeakers results = []"
  obtain run4 evs0 where u: "scheduleUser env cid minionsInChannel hist results run =
          respondAll env cid (sortByPredictedResponseTime (userSpeakers results)) hist run4"
    and rest: "events run4 = events run @ evs0
      \<and> responses evs0 = [] \<and> streamPrompts evs0 = [] \<and> jsonPrompts evs0 = []
      \<and> (\<forall>m \<in> set (systemNotices evs0). content m \<noteq> allSilentText)
      \<and> length (systemNotices evs0) + length (userSpeakers results) = length results
      \<and> messages (service run4) = messages (service run)
      \<and> channels (service run4) = channels (service run)"
    using scheduleUser_unfold [of env cid minionsInChannel hist results run] by (elim exE conjE) simp
  from rest have ev: "events run4 = events run @ evs0"
    and q: "responses evs0 = []" "streamPrompts evs0 = []" "jsonPrompts evs0 = []"
      "\<forall>m \<in> set (systemNotices evs0). content m \<noteq> allSilentText"
      "length (systemNotices evs0) + length (userSpeakers results) = length results"
    and f: "messages (service run4) = messages (service run)" "channels (service run4) = channels (service run)"
    by simp_all
  have res: "scheduleUser env cid minionsInChannel hist results run = Inr run4"
    unfolding u none userSpeakers_none_sorted by simp
  have "scheduleUser env cid minionsInChannel hist results run = Inr run4
         \<and> allSilentText \<notin> content ` set (systemNotices (newEvents run run4))
         \<and> length (systemNotices (newEvents run run4)) = length results
         \<and> responses (newEvents run run4) = [] \<and> streamPrompts (newEvents run run4) = []
         \<and> messages (service run4) = messages (service run)"
    unfolding newEvents_append [OF ev] using res q none f by auto
  then show "\<exists>run'. scheduleUser env cid minionsInChannel hist results run = Inr run'
         \<and> allSilentText \<notin> content ` set (systemNotices (newEvents run run'))
         \<and> length (systemNotices (newEvents run run')) = length results
         \<and> responses (newEvents run run') = [] \<and> streamPrompts (newEvents run run') = []
         \<and> messages (service run') = messages (service run)"
    by (rule exI)
qed


section \<open>The autonomous batch and the author of the last message\<close>

lemma perceiveForAuto_self:
  "minion_name minion = senderName lastMessage \<Longrightarrow>
   perceiveForAuto env cid lastMessage activeChannel chatHistory minion run =
     Inr (\<lparr>res_minion = minion, res_plan = None, res_error = Some ''Cannot respond to self.''\<rparr>, run)"
  by (simp add: perceiveForAuto_def)

lemma callGeminiApiForJson_effect:
  "events (snd (callGeminiApiForJson env prompt model temp apiKey run)) =
     events run @ [CallGeminiApiForJson prompt model temp apiKey]"
  "service (snd (callGeminiApiForJson env prompt model temp apiKey run)) = service run"
  by (auto simp: callGeminiApiForJson_def emit_def Let_def split: GenerateContentResult.splits option.splits)

lemma perceiveForAuto_effect:
  assumes "perceiveForAuto env cid lastMessage activeChannel chatHistory minion run = Inr (r, run')"
  shows "res_minion r = minion
     \<and> (minion_name minion = senderName lastMessage \<longrightarrow> res_plan r = None)
     \<and> (\<exists>evs. events run' = events run @ evs
           \<and> responses evs = [] \<and> streamPrompts evs = []
           \<and> (\<forall>p \<in> set (jsonPrompts evs). pp_minionName p \<noteq> senderName lastMessage)
           \<and> (\<forall>m \<in> set (systemNotices evs). isError m \<noteq> Some True))"
proof (cases "minion_name minion = senderName lastMessage")
  case True
  then show ?thesis using assms by (auto simp: perceiveForAuto_def)
next
  case False
  obtain keyInfo s1 where sel: "selectApiKey (service run) (Some minion) = Inr (keyInfo, s1)"
    using assms False by (cases "selectApiKey (service run) (Some minion)") (auto simp: perceiveForAuto_def)
  define logged where "logged = emit (OnSystemMessage (fst (createApiKeyLogMessage env cid (minion_name minion) keyInfo Perception (run\<lparr>service := s1\<rparr>))))
      (snd (createApiKeyLogMessage env cid (minion_name minion) keyInfo Perception (run\<lparr>service := s1\<rparr>)))"
  have lev: "events logged = events run @ [OnSystemMessage (fst (createApiKeyLogMessage env cid (minion_name minion) keyInfo Perception (run\<lparr>service := s1\<rparr>)))]"
    by (simp add: logged_def createApiKeyLogMessage_def Date_now_def emit_def Let_def split_def)
  have lerr: "isError (fst (createApiKeyLogMessage env cid (minion_name minion) keyInfo Perception (run\<lparr>service := s1\<rparr>))) = None"
    by (simp add: createApiKeyLogMessage_def Date_now_def Let_def split_def systemMessage_def)
  show ?thesis
  proof (cases "sel_key keyInfo = []")
    case True
    then have "r = \<lparr>res_minion = minion, res_plan = None, res_error = Some ''No API key available.''\<rparr>" "run' = logged"
      using assms False sel by (auto simp: perceiveForAuto_def logged_def Let_def split_def)
    then show ?thesis using lev lerr False by simp
  next
    case key: False
    define called where "called = callGeminiApiForJson env
            (perceptionPrompt minion chatHistory (senderName lastMessage) (channel_type activeChannel))
            (model_id minion) (temperature minion) (sel_key keyInfo) logged"
    have cev: "events (snd called) = events logged @
             [CallGeminiApiForJson (perceptionPrompt minion chatHistory (senderName lastMessage) (channel_type activeChannel))
                (model_id minion) (temperature minion) (sel_key keyInfo)]"
      by (simp add: called_def callGeminiApiForJson_effect)
    have "res_minion r = minion" "run' = snd called"
      using assms False sel key by (auto simp: perceiveForAuto_def logged_def called_def Let_def split_def)
    then show ?thesis using cev lev lerr False by (simp add: perceptionPrompt_def)
  qed
qed

lemma mapRun_perceiveForAuto:
  assumes "mapRun (perceiveForAuto env cid lastMessage activeChannel chatHistory) ms run = Inr (results, run')"
  shows "(\<forall>r \<in> set results. minion_name (res_minion r) = senderName lastMessage \<longrightarrow> res_plan r = None)
     \<and> (\<exists>evs. events run' = events run @ evs
           \<and> responses evs = [] \<and> streamPrompts evs = []
           \<and> (\<forall>p \<in> set (jsonPrompts evs). pp_minionName p \<noteq> senderName lastMessage)
           \<and> (\<forall>m \<in> set (systemNotices evs). isError m \<noteq> Some True))"
  using assms
proof (induction ms arbitrary: run results)
  case Nil
  then show ?case by simp
next
  case (Cons m ms)
  obtain r run1 rs where one: "perceiveForAuto env cid lastMessage activeChannel chatHistory m run = Inr (r, run1)"
    and more: "mapRun (perceiveForAuto env cid lastMessage activeChannel chatHistory) ms run1 = Inr (rs, run')"
    and res: "results = r # rs"
    using Cons.prems by (auto split: sum.splits)
  obtain e1 where e1: "events run1 = events run @ e1" "responses e1 = []" "streamPrompts e1 = []"
      "\<forall>p \<in> set (jsonPrompts e1). pp_minionName p \<noteq> senderName lastMessage"
      "\<forall>m \<in> set (systemNotices e1). isError m \<noteq> Some True"
    and r: "res_minion r = m" "minion_name m = senderName lastMessage \<longrightarrow> res_plan r = None"
    using perceiveForAuto_effect [OF one] by blast
  obtain e2 where e2: "events run' = events run1 @ e2" "responses e2 = []" "streamPrompts e2 = []"
      "\<forall>p \<in> set (jsonPrompts e2). pp_minionName p \<noteq> senderName lastMessage"
      "\<forall>m \<in> set (systemNotices e2). isError m \<noteq> Some True"
    and rs: "\<forall>r \<in> set rs. minion_name (res_minion r) = senderName lastMessage \<longrightarrow> res_plan r = None"
    using Cons.IH [OF more] by blast
  have "(\<forall>r \<in> set results. minion_name (res_minion r) = senderName lastMessage \<longrightarrow> res_plan r = None)
     \<and> (events run' = events run @ (e1 @ e2)
           \<and> responses (e1 @ e2) = [] \<and> streamPrompts (e1 @ e2) = []
           \<and> (\<forall>p \<in> set (jsonPrompts (e1 @ e2)). pp_minionName p \<noteq> senderName lastMessage)
           \<and> (\<forall>m \<in> set (systemNotices (e1 @ e2)). isError m \<noteq> Some True))"
    using e1 e2 r rs res by auto
  then show ?case by blast
qed

lemma autoSpeakers_exclude:
  "\<forall>r \<in> set results. minion_name (res_minion r) = s \<longrightarrow> res_plan r = None \<Longrightarrow>
   \<forall>speaker \<in> set (autoSpeakers results). minion_name (fst speaker) \<noteq> s"
  by (induction results) (auto split: option.splits)

lemma autoSpeakerTurn_events:
  assumes turn: "autoSpeakerTurn env cid (minion, plan) hist run = Inr run'"
  shows "\<exists>evs. events run' = events run @ evs
    \<and> (\<forall>m \<in> set (responses evs). senderName m = minion_name minion)
    \<and> (\<forall>p \<in> set (streamPrompts evs). rp_minionName p = minion_name minion)
    \<and> jsonPrompts evs = []
    \<and> (\<forall>m \<in> set (systemNotices evs). isError m \<noteq> Some True)"
proof -
  obtain keyInfo s1 where sel: "selectApiKey (service run) (Some minion) = Inr (keyInfo, s1)"
    using turn
    by (cases "selectApiKey (service run) (Some minion)")
       (auto simp: autoSpeakerTurn_def Date_now_def emit_def Let_def split_def)
  show ?thesis
  proof (cases "sel_key keyInfo = []")
    case True
    show ?thesis
      using turn
      by (auto simp: autoSpeakerTurn_def sel True runStreamingResponse_no_key errorFinalize_effect
          createApiKeyLogMessage_def Date_now_def emit_def Let_def split_def
          aiMessage_def systemMessage_def)
  next
    case False
    show ?thesis
    proof (cases "generateContentStream env (streamCalls run)")
      case (StreamCompletes chunks)
      show ?thesis
        using turn
        by (auto simp: autoSpeakerTurn_def sel False runStreamingResponse_completes StreamCompletes finalize_effect
            createApiKeyLogMessage_def Date_now_def emit_def Let_def split_def
            aiMessage_def systemMessage_def)
    next
      case (StreamThrows chunks e)
      show ?thesis
        using turn
        by (auto simp: autoSpeakerTurn_def sel False runStreamingResponse_throws StreamThrows errorFinalize_effect
            createApiKeyLogMessage_def Date_now_def emit_def Let_def split_def
            aiMessage_def systemMessage_def)
    qed
  qed
qed

lemma scheduleAuto_events:
  assumes sched: "scheduleAuto env cid minionsInChannel hist results run = Inr run'"
    and excl: "\<forall>speaker \<in> set (autoSpeakers results). minion_name (fst speaker) \<noteq> s"
  shows "\<exists>evs. events run' = events run @ evs
    \<and> (\<forall>m \<in> set (responses evs). senderName m \<noteq> s)
    \<and> (\<forall>p \<in> set (streamPrompts evs). rp_minionName p \<noteq> s)
    \<and> jsonPrompts evs = []
    \<and> (\<forall>m \<in> set (systemNotices evs). isError m \<noteq> Some True)"
proof (cases "sortByPredictedResponseTime (autoSpeakers results)")
  case Nil
  define updates where "updates = map (\<lambda>m. OnMinionProcessingUpdate (minion_name m) False) minionsInChannel"
  define notice where "notice = OnSystemMessage (systemMessage (''sys-auto-silent-'' @ show_nat (clock env (clockReads run))) cid
      allSilentText (clock env (Suc (clockReads run))))"
  have "events run' = events run @ (updates @ [notice])"
    using sched Nil by (auto simp: scheduleAuto_def fold_emit autoNotice_effect updates_def notice_def)
  moreover have "responses (updates @ [notice]) = []" "streamPrompts (updates @ [notice]) = []"
    "jsonPrompts (updates @ [notice]) = []" "\<forall>m \<in> set (systemNotices (updates @ [notice])). isError m \<noteq> Some True"
    by (simp_all add: updates_def notice_def systemMessage_def)
  ultimately have "events run' = events run @ (updates @ [notice])
    \<and> (\<forall>m \<in> set (responses (updates @ [notice])). senderName m \<noteq> s)
    \<and> (\<forall>p \<in> set (streamPrompts (updates @ [notice])). rp_minionName p \<noteq> s)
    \<and> jsonPrompts (updates @ [notice]) = []
    \<and> (\<forall>m \<in> set (systemNotices (updates @ [notice])). isError m \<noteq> Some True)"
    by simp
  then show ?thesis by (rule exI)
next
  case (Cons nextSpeaker others)
  obtain minion plan where sp: "nextSpeaker = (minion, plan)" by (cases nextSpeaker)
  have "nextSpeaker \<in> set (sortByPredictedResponseTime (autoSpeakers results))" using Cons by simp
  then have "nextSpeaker \<in> set (autoSpeakers results)" by (simp add: sortByPredictedResponseTime_def)
  then have name: "minion_name minion \<noteq> s" using excl sp by auto
  define updates where "updates = map (\<lambda>m. OnMinionProcessingUpdate (minion_name m) False) minionsInChannel"
  define run3 where "run3 = run\<lparr>events := events run @ updates\<rparr>"
  have turn: "autoSpeakerTurn env cid (minion, plan) hist run3 = Inr run'"
    using sched Cons sp by (simp add: scheduleAuto_def fold_emit run3_def updates_def)
  obtain e2 where e2: "events run' = events run3 @ e2"
    "\<forall>m \<in> set (responses e2). senderName m = minion_name minion"
    "\<forall>p \<in> set (streamPrompts e2). rp_minionName p = minion_name minion"
    "jsonPrompts e2 = []" "\<forall>m \<in> set (systemNotices e2). isError m \<noteq> Some True"
    using autoSpeakerTurn_events [OF turn] by blast
  have "events run' = events run @ (updates @ e2)
    \<and> (\<forall>m \<in> set (responses (updates @ e2)). senderName m \<noteq> s)
    \<and> (\<forall>p \<in> set (streamPrompts (updates @ e2)). rp_minionName p \<noteq> s)
    \<and> jsonPrompts (updates @ e2) = []
    \<and> (\<forall>m \<in> set (systemNotices (updates @ e2)). isError m \<noteq> Some True)"
    using e2 name by (simp add: run3_def updates_def)
  then show ?thesis by (rule exI)
qed


lemma triggerNextAutoChatTurn_events:
  assumes trig: "triggerNextAutoChatTurn env cid run = Inr run'"
    and nonempty: "messagesOf (service run) cid \<noteq> []"
  shows "\<exists>evs. events run' = events run @ evs
    \<and> (\<forall>p \<in> set (jsonPrompts evs). pp_minionName p \<noteq> senderName (last (messagesOf (service run) cid)))
    \<and> (\<forall>p \<in> set (streamPrompts evs). rp_minionName p \<noteq> senderName (last (messagesOf (service run) cid)))
    \<and> (\<forall>m \<in> set (responses evs). senderName m \<noteq> senderName (last (messagesOf (service run) cid)))
    \<and> (\<forall>m \<in> set (systemNotices evs). isError m \<noteq> Some True)"
proof (cases "find (\<lambda>c. channel_id c = cid) (channels (service run))")
  case None
  then have "events run' = events run @ []" using trig by (simp add: triggerNextAutoChatTurn_def)
  then show ?thesis by (intro exI [of _ "[]"]) simp
next
  case (Some activeChannel)
  show ?thesis
  proof (cases "isAutoModeActive activeChannel = Some True")
    case False
    then have "events run' = events run @ []" using trig Some by (simp add: triggerNextAutoChatTurn_def)
    then show ?thesis by (intro exI [of _ "[]"]) simp
  next
    case active: True
    define minionsInChannel where "minionsInChannel = minionsInChannelOf (service run) activeChannel"
    show ?thesis
    proof (cases "length minionsInChannel < 2")
      case True
      define notice where "notice = OnSystemMessage (systemMessage (''sys-auto-err-'' @ show_nat (clock env (clockReads run))) cid
          ''Auto-mode paused. Requires at least 2 minions in the channel.'' (clock env (Suc (clockReads run))))"
      have "events run' = events run @ [notice]"
        using trig Some active True
        by (auto simp: triggerNextAutoChatTurn_def minionsInChannel_def autoNotice_effect notice_def)
      moreover have "jsonPrompts [notice] = []" "streamPrompts [notice] = []" "responses [notice] = []"
        "\<forall>m \<in> set (systemNotices [notice]). isError m \<noteq> Some True"
        by (simp_all add: notice_def systemMessage_def)
      ultimately show ?thesis by (intro exI [of _ "[notice]"]) simp
    next
      case enough: False
      define lastMessage where "lastMessage = last (messagesOf (service run) cid)"
      define chatHistory where "chatHistory = formatChatHistoryForLLM (messagesOf (service run) cid) cid"
      define updates where "updates = map (\<lambda>m. OnMinionProcessingUpdate (minion_name m) True) minionsInChannel"
      define run1 where "run1 = run\<lparr>events := events run @ updates\<rparr>"
      have step: "triggerNextAutoChatTurn env cid run =
          (case mapRun (perceiveForAuto env cid lastMessage activeChannel chatHistory) minionsInChannel run1 of
             Inl e \<Rightarrow> Inl e
           | Inr (results, run2) \<Rightarrow> scheduleAuto env cid minionsInChannel chatHistory results run2)"
        using Some active enough nonempty
        unfolding minionsInChannel_def lastMessage_def chatHistory_def run1_def updates_def
        by (simp add: triggerNextAutoChatTurn_def fold_emit Let_def)
      obtain results run2 where perc: "mapRun (perceiveForAuto env cid lastMessage activeChannel chatHistory) minionsInChannel run1 = Inr (results, run2)"
        and sched: "scheduleAuto env cid minionsInChannel chatHistory results run2 = Inr run'"
        using trig unfolding step by (auto split: sum.splits)
      obtain e1 where e1: "events run2 = events run1 @ e1" "responses e1 = []" "streamPrompts e1 = []"
          "\<forall>p \<in> set (jsonPrompts e1). pp_minionName p \<noteq> senderName lastMessage"
          "\<forall>m \<in> set (systemNotices e1). isError m \<noteq> Some True"
        and excl: "\<forall>r \<in> set results. minion_name (res_minion r) = senderName lastMessage \<longrightarrow> res_plan r = None"
        using mapRun_perceiveForAuto [OF perc] by blast
      obtain e2 where e2: "events run' = events run2 @ e2"
          "\<forall>m \<in> set (responses e2). senderName m \<noteq> senderName lastMessage"
          "\<forall>p \<in> set (streamPrompts e2). rp_minionName p \<noteq> senderName lastMessage"
          "jsonPrompts e2 = []" "\<forall>m \<in> set (systemNotices e2). isError m \<noteq> Some True"
        using scheduleAuto_events [OF sched autoSpeakers_exclude [OF excl]] by blast
      have "events run' = events run @ (updates @ e1 @ e2)
        \<and> (\<forall>p \<in> set (jsonPrompts (updates @ e1 @ e2)). pp_minionName p \<noteq> senderName lastMessage)
        \<and> (\<forall>p \<in> set (streamPrompts (updates @ e1 @ e2)). rp_minionName p \<noteq> senderName lastMessage)
        \<and> (\<forall>m \<in> set (responses (updates @ e1 @ e2)). senderName m \<noteq> senderName lastMessage)
        \<and> (\<forall>m \<in> set (systemNotices (updates @ e1 @ e2)). isError m \<noteq> Some True)"
        using e1 e2 by (auto simp: run1_def updates_def)
      then show ?thesis unfolding lastMessage_def by (rule exI)
    qed
  qed
qed

text \<open>
  C4. In an autonomous batch on a channel with a last message, no structured and no
  streamed model call is made for an agent named as the sender of that message, no
  message of such an agent is handed to the message callback (it is not the speaker),
  and no error diagnostic is emitted. The perception outcome of such an agent is built
  without touching the run: no plan, and the text \<^verbatim>\<open>Cannot respond to self.\<close>; for the
  autonomous batch an outcome without a plan is silence. Whatever list of agents is
  perceived, such an agent is not among the candidate speakers the filter keeps.
\<close>

theorem autoBatch_excludes_last_sender:
  assumes "triggerNextAutoChatTurn env cid run = Inr run'"
    and "messagesOf (service run) cid \<noteq> []"
  shows "(\<forall>p \<in> set (jsonPrompts (newEvents run run')).
            pp_minionName p \<noteq> senderName (last (messagesOf (service run) cid)))
    \<and> (\<forall>p \<in> set (streamPrompts (newEvents run run')).
            rp_minionName p \<noteq> senderName (last (messagesOf (service run) cid)))
    \<and> (\<forall>m \<in> set (responses (newEvents run run')).
            senderName m \<noteq> senderName (last (messagesOf (service run) cid)))
    \<and> (\<forall>m \<in> set (systemNotices (newEvents run run')). isError m \<noteq> Some True)
    \<and> (\<forall>minion activeChannel chatHistory run0.
          minion_name minion = senderName (last (messagesOf (service run) cid)) \<longrightarrow>
          perceiveForAuto env cid (last (messagesOf (service run) cid)) activeChannel chatHistory minion run0 =
            Inr (\<lparr>res_minion = minion, res_plan = None, res_error = Some ''Cannot respond to self.''\<rparr>, run0))
    \<and> (\<forall>activeChannel chatHistory minionsInChannel run1 results run2.
          mapRun (perceiveForAuto env cid (last (messagesOf (service run) cid)) activeChannel chatHistory)
            minionsInChannel run1 = Inr (results, run2) \<longrightarrow>
          (\<forall>speaker \<in> set (autoSpeakers results).
             minion_name (fst speaker) \<noteq> senderName (last (messagesOf (service run) cid))))"
proof -
  obtain evs where ev: "events run' = events run @ evs"
    and facts: "\<forall>p \<in> set (jsonPrompts evs). pp_minionName p \<noteq> senderName (last (messagesOf (service run) cid))"
      "\<forall>p \<in> set (streamPrompts evs). rp_minionName p \<noteq> senderName (last (messagesOf (service run) cid))"
      "\<forall>m \<in> set (responses evs). senderName m \<noteq> senderName (last (messagesOf (service run) cid))"
      "\<forall>m \<in> set (systemNotices evs). isError m \<noteq> Some True"
    using triggerNextAutoChatTurn_events [OF assms] by blast
  have candidates: "\<forall>activeChannel chatHistory minionsInChannel run1 results run2.
          mapRun (perceiveForAuto env cid (last (messagesOf (service run) cid)) activeChannel chatHistory)
            minionsInChannel run1 = Inr (results, run2) \<longrightarrow>
          (\<forall>speaker \<in> set (autoSpeakers results).
             minion_name (fst speaker) \<noteq> senderName (last (messagesOf (service run) cid)))"
  proof (intro allI impI)
    fix activeChannel chatHistory minionsInChannel run1 results run2
    assume "mapRun (perceiveForAuto env cid (last (messagesOf (service run) cid)) activeChannel chatHistory)
            minionsInChannel run1 = Inr (results, run2)"
    from mapRun_perceiveForAuto [OF this]
    have "\<forall>r \<in> set results. minion_name (res_minion r) = senderName (last (messagesOf (service run) cid))
        \<longrightarrow> res_plan r = None"
      by (rule conjunct1)
    then show "\<forall>speaker \<in> set (autoSpeakers results).
             minion_name (fst speaker) \<noteq> senderName (last (messagesOf (service run) cid))"
      by (rule autoSpeakers_exclude)
  qed
  have outcome: "\<forall>minion activeChannel chatHistory run0.
          minion_name minion = senderName (last (messagesOf (service run) cid)) \<longrightarrow>
          perceiveForAuto env cid (last (messagesOf (service run) cid)) activeChannel chatHistory minion run0 =
            Inr (\<lparr>res_minion = minion, res_plan = None, res_error = Some ''Cannot respond to self.''\<rparr>, run0)"
    using perceiveForAuto_self by blast
  show ?thesis
    unfolding newEvents_append [OF ev] using facts outcome candidates by (intro conjI)
qed

section \<open>Example batches\<close>

text \<open>
  A service with the two agents Alpha and Bravo in the channel \<open>general\<close>, a clock that
  starts at 1700 and advances by one at every reading, and a model whose replies are
  listed per call. The reply texts \<open>fast\<close>, \<open>slow\<close> and \<open>silent\<close> stand for three JSON
  documents and are parsed to the three plans below.
\<close>

definition demoPlan :: "Action \<Rightarrow> rat \<Rightarrow> rat \<Rightarrow> PerceptionPlan" where
  "demoPlan act latency score =
     \<lparr>perceptionAnalysis = ''Asked.'', opinionUpdates = [],
      finalOpinions = [LEGION_COMMANDER_NAME \<mapsto> score], selectedResponseMode = ''Neutral'',
      personalNotes = None, action = act, responsePlan = ''Report.'',
      predictedResponseTime = latency\<rparr>"

definition tick :: "nat \<Rightarrow> nat" where
  "tick n = 1700 + n"

definition nthOr :: "'a list \<Rightarrow> 'a \<Rightarrow> nat \<Rightarrow> 'a" where
  "nthOr xs d n = (if n < length xs then xs ! n else d)"

definition parseDemoPlan :: "string \<Rightarrow> PerceptionPlan option" where
  "parseDemoPlan text =
     (if text = ''fast'' then Some (demoPlan SPEAK 500 60)
      else if text = ''slow'' then Some (demoPlan SPEAK 2500 55)
      else if text = ''silent'' then Some (demoPlan STAY_SILENT 900 40)
      else None)"

definition demoEnv :: "GenerateContentResult list \<Rightarrow> StreamResult list \<Rightarrow> Env" where
  "demoEnv jsonReplies streamReplies =
     \<lparr>clock = tick,
      generateContent = nthOr jsonReplies (GenerateThrows ''offline''),
      generateContentStream = nthOr streamReplies (StreamThrows [] ''offline''),
      parseJsonFromMarkdown = parseDemoPlan\<rparr>"

definition startRun :: "LegionApiService \<Rightarrow> Run" where
  "startRun s = \<lparr>service = s, events = [], clockReads = 0, jsonCalls = 0, streamCalls = 0\<rparr>"

definition twoAgents :: "ApiKey list \<Rightarrow> ChannelType \<Rightarrow> bool \<Rightarrow> ChatMessageData list \<Rightarrow> LegionApiService" where
  "twoAgents ks kind auto msgs =
     \<lparr>minionConfigs = [demoMinion ''m1'' ''Alpha'' None, demoMinion ''m2'' ''Bravo'' None],
      channels = [demoChannel ''general'' kind [''Steven'', ''Alpha'', ''Bravo''] auto],
      messages = [''general'' \<mapsto> msgs],
      apiKeys = ks, apiKeyRoundRobinIndex = 0\<rparr>"

definition planned :: "MinionConfig \<Rightarrow> PerceptionPlan \<Rightarrow> PerceptionResult" where
  "planned minion plan = \<lparr>res_minion = minion, res_plan = Some plan, res_error = None\<rparr>"

definition resolvedRun :: "(error \<times> Run) + Run \<Rightarrow> Run option" where
  "resolvedRun outcome = (case outcome of Inl thrown \<Rightarrow> None | Inr run \<Rightarrow> Some run)"

definition opinionOf :: "string \<Rightarrow> MinionConfig \<Rightarrow> rat option" where
  "opinionOf name minion = opinionScores minion name"

lemma demoPlan_fields [simp]:
  "action (demoPlan act latency score) = act"
  "predictedResponseTime (demoPlan act latency score) = latency"
  "finalOpinions (demoPlan act latency score) = [LEGION_COMMANDER_NAME \<mapsto> score]"
  by (simp_all add: demoPlan_def)

lemma demoMinion_fields [simp]:
  "minion_id (demoMinion mid name pin) = mid"
  "minion_name (demoMinion mid name pin) = name"
  "model_id (demoMinion mid name pin) = ''flash''"
  "system_prompt_persona (demoMinion mid name pin) = ''Terse.''"
  "temperature (demoMinion mid name pin) = 7 / 10"
  "apiKeyId (demoMinion mid name pin) = pin"
  "opinionScores (demoMinion mid name pin) = [LEGION_COMMANDER_NAME \<mapsto> 50]"
  "lastDiaryState (demoMinion mid name pin) = None"
  by (simp_all add: demoMinion_def)

lemma demoKey_fields [simp]:
  "apiKey_id (demoKey kid name secret) = kid"
  "apiKey_name (demoKey kid name secret) = name"
  "apiKey_key (demoKey kid name secret) = secret"
  by (simp_all add: demoKey_def)

lemma demoChannel_fields [simp]:
  "channel_id (demoChannel cid kind names auto) = cid"
  "channel_type (demoChannel cid kind names auto) = kind"
  "members (demoChannel cid kind names auto) = names"
  "isAutoModeActive (demoChannel cid kind names auto) = Some auto"
  by (simp_all add: demoChannel_def)

lemma userMessage_fields [simp]:
  "msg_id (userMessage mid cid text now) = mid"
  "channelId (userMessage mid cid text now) = cid"
  "senderType (userMessage mid cid text now) = User"
  "senderName (userMessage mid cid text now) = LEGION_COMMANDER_NAME"
  "content (userMessage mid cid text now) = text"
  "isProcessing (userMessage mid cid text now) = None"
  "isError (userMessage mid cid text now) = None"
  "internalDiary (userMessage mid cid text now) = None"
  by (simp_all add: userMessage_def)

lemma planned_fields [simp]:
  "res_minion (planned minion plan) = minion" "res_plan (planned minion plan) = Some plan"
  "res_error (planned minion plan) = None"
  by (simp_all add: planned_def)

lemmas demo_defs = tick_def nthOr_def parseDemoPlan_def demoEnv_def startRun_def twoAgents_def
  LEGION_COMMANDER_NAME_def resolvedRun_def opinionOf_def

lemmas engine_defs = handleUserMessage_def scheduleUser_def triggerNextAutoChatTurn_def scheduleAuto_def
  perceiveForUser_def perceiveForAuto_def processResult_def speakerTurn_def autoSpeakerTurn_def
  runStreamingResponse_def callGeminiAPIStream_def callGeminiApiForJson_def errorFinalize_def finalize_def
  createApiKeyLogMessage_def autoNotice_def updateMinionState_def setMessages_def messagesOf_def
  selectApiKey_def pinnedKeyId_def minionsInChannelOf_def markSilentIdle_def
  sortByPredictedResponseTime_def perceptionPrompt_def formatChatHistoryForLLM_def senderPrefix_def lastN_def
  systemMessage_def aiMessage_def truthy_def Date_now_def emit_def stageName_def methodName_def
  emptyResponseReason_def trim_def isWhiteSpace_def allSilentText_def
  Let_def show_nat.simps digit_char_def

subsection \<open>One speaker whose stream fails\<close>

text \<open>
  Alpha's turn on a stream that delivers one chunk and then throws: the placeholder and
  the message finalized as an error reach the callback, the stored channel holds the
  user's message only.
\<close>

theorem speakerTurn_stores_only_completed_witness:
  "\<exists>hist' run'.
      speakerTurn (demoEnv [] [StreamThrows [''Par''] ''boom'']) ''general''
        (demoMinion ''m1'' ''Alpha'' None, demoPlan SPEAK 500 60) ''h''
        (startRun (twoAgents [demoKey ''k1'' ''K1'' ''s1''] user_minion_group False
           [userMessage ''user-1'' ''general'' ''Report.'' 1600])) = Inr (hist', run')
    \<and> tempIdOf (demoEnv [] [StreamThrows [''Par''] ''boom'']) (demoMinion ''m1'' ''Alpha'' None)
        (startRun (twoAgents [demoKey ''k1'' ''K1'' ''s1''] user_minion_group False
           [userMessage ''user-1'' ''general'' ''Report.'' 1600]))
        \<notin> msg_id ` set [userMessage ''user-1'' ''general'' ''Report.'' 1600]
    \<and> map isProcessing (responses (events run')) = [Some True, Some False]
    \<and> map isError (tl (responses (events run'))) = [Some True]
    \<and> messagesOf (service run') ''general'' = [userMessage ''user-1'' ''general'' ''Report.'' 1600]
    \<and> hist' = ''h''"
proof -
  let ?env = "demoEnv [] [StreamThrows [''Par''] ''boom'']"
  let ?minion = "demoMinion ''m1'' ''Alpha'' None"
  let ?stored = "[userMessage ''user-1'' ''general'' ''Report.'' 1600]"
  let ?run = "startRun (twoAgents [demoKey ''k1'' ''K1'' ''s1''] user_minion_group False ?stored)"
  have "\<exists>hist' run'. speakerTurn ?env ''general'' (?minion, demoPlan SPEAK 500 60) ''h'' ?run = Inr (hist', run')"
    by (simp add: engine_defs demo_defs)
  then obtain hist' run' where
    turn: "speakerTurn ?env ''general'' (?minion, demoPlan SPEAK 500 60) ''h'' ?run = Inr (hist', run')"
    by blast
  have stored: "messagesOf (service ?run) ''general'' = ?stored"
    by (simp add: messagesOf_def demo_defs)
  have fresh: "tempIdOf ?env ?minion ?run \<notin> msg_id ` set ?stored"
    by (simp add: tempIdOf_def demo_defs show_nat.simps digit_char_def)
  have throws: "generateContentStream ?env (streamCalls ?run) = StreamThrows [''Par''] ''boom''"
    by (simp add: demo_defs)
  have new: "newEvents ?run run' = events run'"
    by (simp add: newEvents_def demo_defs)
  from speakerTurn_stores_only_completed [OF turn] fresh stored throws new
  obtain placeholder fin where
    "responses (events run') = [placeholder, fin]"
    "isProcessing placeholder = Some True" "isProcessing fin = Some False"
    "isError fin = Some True" "messagesOf (service run') ''general'' = ?stored" "hist' = ''h''"
    by auto
  with turn fresh show ?thesis
    by auto
qed

subsection \<open>Two speakers\<close>


subsection \<open>Nobody speaks\<close>

text \<open>
  One agent that plans to stay silent, given to the scheduler of the autonomous batch
  and to the scheduler of the human-triggered batch.
\<close>

theorem empty_speak_set_outcomes_witness:
  "autoSpeakers [planned (demoMinion ''m1'' ''Alpha'' None) (demoPlan STAY_SILENT 900 40)] = []
   \<and> (\<exists>run'. scheduleAuto (demoEnv [] []) ''general'' [demoMinion ''m1'' ''Alpha'' None] ''h''
               [planned (demoMinion ''m1'' ''Alpha'' None) (demoPlan STAY_SILENT 900 40)]
               (startRun emptyService) = Inr run'
         \<and> map content (systemNotices (events run')) = [allSilentText]
         \<and> responses (events run') = [])
   \<and> userSpeakers [planned (demoMinion ''m1'' ''Alpha'' None) (demoPlan STAY_SILENT 900 40)] = []
   \<and> (\<exists>run'. scheduleUser (demoEnv [] []) ''general'' [demoMinion ''m1'' ''Alpha'' None] ''h''
               [planned (demoMinion ''m1'' ''Alpha'' None) (demoPlan STAY_SILENT 900 40)]
               (startRun emptyService) = Inr run'
         \<and> allSilentText \<notin> content ` set (systemNotices (events run'))
         \<and> length (systemNotices (events run')) = 1
         \<and> responses (events run') = [])"
proof -
  let ?env = "demoEnv [] []"
  let ?alpha = "demoMinion ''m1'' ''Alpha'' None"
  let ?results = "[planned ?alpha (demoPlan STAY_SILENT 900 40)]"
  have auto_none: "autoSpeakers ?results = []"
    by simp
  have user_none: "userSpeakers ?results = []"
    by (simp add: truthy_def)
  have new: "\<And>run'. newEvents (startRun emptyService) run' = events run'"
    by (simp add: newEvents_def demo_defs)
  from empty_speak_set_outcomes [of ?results ?env "''general''" "[?alpha]" "''h''" "startRun emptyService"]
    auto_none user_none
  show ?thesis
    unfolding new by auto
qed

text \<open>How often the notice of the autonomous batch occurs among the system notices of a trace.\<close>

definition allSilentNotices :: "Event list \<Rightarrow> nat" where
  "allSilentNotices evs = count_list (map content (systemNotices evs)) allSilentText"

text \<open>
  C5, as stated: every batch with an empty SPEAK set, human-triggered or autonomous,
  emits exactly one \<open>all silent this turn\<close> notice. The commander's message \<open>Report.\<close>
  reaches Alpha and Bravo, both perceive it and both plan to stay silent. The batch
  resolves; its system notices are the two credential logs and one notice per agent,
  the \<open>all silent\<close> notice is not among them, and no response is generated.
\<close>

theorem handleUserMessage_all_silent_counterexample:
  "map_option (map content \<circ> systemNotices \<circ> events)
     (resolvedRun (handleUserMessage
        (demoEnv [GenerateResponse ''silent'' None, GenerateResponse ''silent'' None] [])
        ''general'' (userMessage ''user-1'' ''general'' ''Report.'' 1600)
        (startRun (twoAgents [demoKey ''k1'' ''K1'' ''s1''] user_minion_group False []))))
     = Some [''Alpha is using key 'K1' (Load Balanced) for Perception.'',
              ''Bravo is using key 'K1' (Load Balanced) for Perception.'',
              ''Alpha chose to remain silent.'', ''Bravo chose to remain silent.'']
   \<and> map_option (allSilentNotices \<circ> events)
     (resolvedRun (handleUserMessage
        (demoEnv [GenerateResponse ''silent'' None, GenerateResponse ''silent'' None] [])
        ''general'' (userMessage ''user-1'' ''general'' ''Report.'' 1600)
        (startRun (twoAgents [demoKey ''k1'' ''K1'' ''s1''] user_minion_group False []))))
     = Some 0
   \<and> map_option (responses \<circ> events)
     (resolvedRun (handleUserMessage
        (demoEnv [GenerateResponse ''silent'' None, GenerateResponse ''silent'' None] [])
        ''general'' (userMessage ''user-1'' ''general'' ''Report.'' 1600)
        (startRun (twoAgents [demoKey ''k1'' ''K1'' ''s1''] user_minion_group False []))))
     = Some []
   \<and> parseDemoPlan ''silent'' = Some (demoPlan STAY_SILENT 900 40)"
  by (simp add: engine_defs demo_defs allSilentNotices_def)

subsection \<open>The author of the last message\<close>

text \<open>
  The last message of the autonomous channel is Alpha's. Only Bravo is asked to
  perceive it, and only Bravo answers.
\<close>

theorem autoBatch_excludes_last_sender_witness:
  "\<exists>run'.
      triggerNextAutoChatTurn (demoEnv [GenerateResponse ''fast'' None] [StreamCompletes [''Agreed.'']]) ''general''
        (startRun (twoAgents [demoKey ''k1'' ''K1'' ''s1''] minion_minion_auto True
           [aiMessage ''ai-m1-1500'' ''general'' ''Alpha'' ''Status?'' 1500])) = Inr run'
    \<and> messagesOf (service (startRun (twoAgents [demoKey ''k1'' ''K1'' ''s1''] minion_minion_auto True
           [aiMessage ''ai-m1-1500'' ''general'' ''Alpha'' ''Status?'' 1500]))) ''general'' \<noteq> []
    \<and> map pp_minionName (jsonPrompts (events run')) = [''Bravo'']
    \<and> map senderName (responses (events run')) = [''Bravo'', ''Bravo'']
    \<and> ''Alpha'' \<notin> pp_minionName ` set (jsonPrompts (events run'))
    \<and> ''Alpha'' \<notin> rp_minionName ` set (streamPrompts (events run'))
    \<and> ''Alpha'' \<notin> senderName ` set (responses (events run'))
    \<and> Some True \<notin> isError ` set (systemNotices (events run'))"
proof -
  let ?env = "demoEnv [GenerateResponse ''fast'' None] [StreamCompletes [''Agreed.'']]"
  let ?stored = "[aiMessage ''ai-m1-1500'' ''general'' ''Alpha'' ''Status?'' 1500]"
  let ?run = "startRun (twoAgents [demoKey ''k1'' ''K1'' ''s1''] minion_minion_auto True ?stored)"
  have "\<exists>run'. triggerNextAutoChatTurn ?env ''general'' ?run = Inr run'
          \<and> map pp_minionName (jsonPrompts (events run')) = [''Bravo'']
          \<and> map senderName (responses (events run')) = [''Bravo'', ''Bravo'']"
    by (simp add: engine_defs demo_defs)
  then obtain run' where evaluated: "triggerNextAutoChatTurn ?env ''general'' ?run = Inr run'
          \<and> map pp_minionName (jsonPrompts (events run')) = [''Bravo'']
          \<and> map senderName (responses (events run')) = [''Bravo'', ''Bravo'']" ..
  from evaluated have batch: "triggerNextAutoChatTurn ?env ''general'' ?run = Inr run'"
    by (rule conjunct1)
  from evaluated have seen: "map pp_minionName (jsonPrompts (events run')) = [''Bravo'']
      \<and> map senderName (responses (events run')) = [''Bravo'', ''Bravo'']"
    by (rule conjunct2)
  have stored: "messagesOf (service ?run) ''general'' = ?stored"
    by (simp add: messagesOf_def demo_defs)
  have nonempty: "messagesOf (service ?run) ''general'' \<noteq> []"
    by (simp add: stored)
  have sender: "senderName (last (messagesOf (service ?run) ''general'')) = ''Alpha''"
    by (simp add: messagesOf_def demo_defs aiMessage_def)
  have new: "newEvents ?run run' = events run'"
    by (simp add: newEvents_def demo_defs)
  from autoBatch_excludes_last_sender [OF batch nonempty]
  have "(\<forall>p \<in> set (jsonPrompts (events run')). pp_minionName p \<noteq> ''Alpha'')
    \<and> (\<forall>p \<in> set (streamPrompts (events run')). rp_minionName p \<noteq> ''Alpha'')
    \<and> (\<forall>m \<in> set (responses (events run')). senderName m \<noteq> ''Alpha'')
    \<and> (\<forall>m \<in> set (systemNotices (events run')). isError m \<noteq> Some True)"
    unfolding new sender by blast
  then have "''Alpha'' \<notin> pp_minionName ` set (jsonPrompts (events run'))
    \<and> ''Alpha'' \<notin> rp_minionName ` set (streamPrompts (events run'))
    \<and> ''Alpha'' \<notin> senderName ` set (responses (events run'))
    \<and> Some True \<notin> isError ` set (systemNotices (events run'))"
    by auto
  with batch nonempty seen
  have "triggerNextAutoChatTurn ?env ''general'' ?run = Inr run'
    \<and> messagesOf (service ?run) ''general'' \<noteq> []
    \<and> map pp_minionName (jsonPrompts (events run')) = [''Bravo'']
    \<and> map senderName (responses (events run')) = [''Bravo'', ''Bravo'']
    \<and> ''Alpha'' \<notin> pp_minionName ` set (jsonPrompts (events run'))
    \<and> ''Alpha'' \<notin> rp_minionName ` set (streamPrompts (events run'))
    \<and> ''Alpha'' \<notin> senderName ` set (responses (events run'))
    \<and> Some True \<notin> isError ` set (systemNotices (events run'))"
    by (elim conjE, intro conjI) assumption+
  then show ?thesis
    by (rule exI)
qed

section \<open>Emotional state after a batch\<close>

text \<open>
  The human-triggered batch calls \<^verbatim>\<open>updateMinionState\<close> in the loop over the perception
  results, for every agent with a plan and before the test of the plan's action. On the
  commander's message \<open>Report.\<close> Alpha plans to speak and Bravo plans to stay silent:
  after the batch each agent's diary is its plan and its opinion of the commander is
  the plan's (60 and 40).
\<close>

lemma handleUserMessage_keeps_silent_plan:
  "map_option (map lastDiaryState \<circ> minionConfigs \<circ> service)
     (resolvedRun (handleUserMessage
        (demoEnv [GenerateResponse ''fast'' None, GenerateResponse ''silent'' None] [StreamCompletes [''On it.'']])
        ''general'' (userMessage ''user-1'' ''general'' ''Report.'' 1600)
        (startRun (twoAgents [demoKey ''k1'' ''K1'' ''s1''] minion_minion_auto True []))))
     = Some [Some (demoPlan SPEAK 500 60), Some (demoPlan STAY_SILENT 900 40)]
   \<and> map_option (map (opinionOf ''Steven'') \<circ> minionConfigs \<circ> service)
     (resolvedRun (handleUserMessage
        (demoEnv [GenerateResponse ''fast'' None, GenerateResponse ''silent'' None] [StreamCompletes [''On it.'']])
        ''general'' (userMessage ''user-1'' ''general'' ''Report.'' 1600)
        (startRun (twoAgents [demoKey ''k1'' ''K1'' ''s1''] minion_minion_auto True []))))
     = Some [Some 60, Some 40]"
  by (simp add: engine_defs demo_defs)

text \<open>
  C1. For every batch, human-triggered or autonomous, and every agent in it whose
  perception call succeeds with a parseable plan: after the batch the agent's stored
  opinion map is the plan's \<open>finalOpinions\<close> and its stored diary is the plan, whether
  the plan's action is SPEAK or STAY_SILENT. The autonomous batch has no call of
  \<^verbatim>\<open>updateMinionState\<close> in its perception phase: the only call is the one in
  \<^verbatim>\<open>runStreamingResponse\<close>, for the one agent that speaks. In the channel below the last
  message is the commander's \<open>Report.\<close>; Alpha and Bravo are both asked to perceive it,
  both calls succeed, Alpha plans to speak and Bravo plans to stay silent with opinion
  40 of the commander. After the batch Alpha's diary is its plan, Bravo's diary is
  still null and Bravo's opinion of the commander is still 50.
\<close>

theorem autoBatch_drops_silent_plan:
  "map_option (map lastDiaryState \<circ> minionConfigs \<circ> service)
     (resolvedRun (triggerNextAutoChatTurn
        (demoEnv [GenerateResponse ''fast'' None, GenerateResponse ''silent'' None] [StreamCompletes [''On it.'']])
        ''general''
        (startRun (twoAgents [demoKey ''k1'' ''K1'' ''s1''] minion_minion_auto True
           [userMessage ''user-1'' ''general'' ''Report.'' 1600]))))
     = Some [Some (demoPlan SPEAK 500 60), None]
   \<and> map_option (map (opinionOf ''Steven'') \<circ> minionConfigs \<circ> service)
     (resolvedRun (triggerNextAutoChatTurn
        (demoEnv [GenerateResponse ''fast'' None, GenerateResponse ''silent'' None] [StreamCompletes [''On it.'']])
        ''general''
        (startRun (twoAgents [demoKey ''k1'' ''K1'' ''s1''] minion_minion_auto True
           [userMessage ''user-1'' ''general'' ''Report.'' 1600]))))
     = Some [Some 60, Some 50]
   \<and> map_option (map pp_minionName \<circ> jsonPrompts \<circ> events)
     (resolvedRun (triggerNextAutoChatTurn
        (demoEnv [GenerateResponse ''fast'' None, GenerateResponse ''silent'' None] [StreamCompletes [''On it.'']])
        ''general''
        (startRun (twoAgents [demoKey ''k1'' ''K1'' ''s1''] minion_minion_auto True
           [userMessage ''user-1'' ''general'' ''Report.'' 1600]))))
     = Some [''Alpha'', ''Bravo'']
   \<and> parseDemoPlan ''silent'' = Some (demoPlan STAY_SILENT 900 40)
   \<and> finalOpinions (demoPlan STAY_SILENT 900 40) ''Steven'' = Some 40"
  by (simp add: engine_defs demo_defs)

end
